theory Spec2Isabelle
  imports Complex_Main
begin

section \<open>Double-precision values\<close>

text \<open>
  The engine computes on C++ \<^verbatim>\<open>double\<close>s. The checks of the source distinguish
  NaN, the infinities and the sign of a value, so a \<open>double\<close> is modelled as a real
  number or one of the three special values of IEEE 754. The arithmetic follows the
  IEEE rules for the special values (\<open>inf - inf\<close>, \<open>0 * inf\<close>, \<open>0 / 0\<close> are NaN;
  every comparison with NaN is false). Rounding, overflow and the sign of zero are
  not modelled: finite values compute as reals, and \<open>-0\<close> is \<open>0\<close>.
\<close>

datatype double = Fin real | PInf | NInf | NaN

fun inf_signed :: "real \<Rightarrow> double" where
  "inf_signed a = (if a = 0 then NaN else if 0 < a then PInf else NInf)"

fun dadd :: "double \<Rightarrow> double \<Rightarrow> double" where
  "dadd (Fin a) (Fin b) = Fin (a + b)"
| "dadd NaN _ = NaN"
| "dadd _ NaN = NaN"
| "dadd PInf NInf = NaN"
| "dadd NInf PInf = NaN"
| "dadd PInf _ = PInf"
| "dadd _ PInf = PInf"
| "dadd NInf _ = NInf"
| "dadd _ NInf = NInf"

fun dneg :: "double \<Rightarrow> double" where
  "dneg (Fin a) = Fin (- a)"
| "dneg PInf = NInf"
| "dneg NInf = PInf"
| "dneg NaN = NaN"

fun dmul :: "double \<Rightarrow> double \<Rightarrow> double" where
  "dmul (Fin a) (Fin b) = Fin (a * b)"
| "dmul NaN _ = NaN"
| "dmul _ NaN = NaN"
| "dmul (Fin a) PInf = inf_signed a"
| "dmul (Fin a) NInf = inf_signed (- a)"
| "dmul PInf (Fin b) = inf_signed b"
| "dmul NInf (Fin b) = inf_signed (- b)"
| "dmul PInf PInf = PInf"
| "dmul PInf NInf = NInf"
| "dmul NInf PInf = NInf"
| "dmul NInf NInf = PInf"

fun ddiv :: "double \<Rightarrow> double \<Rightarrow> double" where
  "ddiv (Fin a) (Fin b) = (if b = 0 then inf_signed a else Fin (a / b))"
| "ddiv NaN _ = NaN"
| "ddiv _ NaN = NaN"
| "ddiv (Fin a) _ = Fin 0"
| "ddiv PInf (Fin b) = (if b < 0 then NInf else PInf)"
| "ddiv NInf (Fin b) = (if b < 0 then PInf else NInf)"
| "ddiv PInf PInf = NaN"
| "ddiv PInf NInf = NaN"
| "ddiv NInf PInf = NaN"
| "ddiv NInf NInf = NaN"

fun dabs :: "double \<Rightarrow> double" where
  "dabs (Fin a) = Fin \<bar>a\<bar>"
| "dabs NaN = NaN"
| "dabs _ = PInf"

fun dless :: "double \<Rightarrow> double \<Rightarrow> bool" where
  "dless (Fin a) (Fin b) = (a < b)"
| "dless NaN _ = False"
| "dless _ NaN = False"
| "dless NInf NInf = False"
| "dless NInf _ = True"
| "dless PInf _ = False"
| "dless _ PInf = True"
| "dless _ NInf = False"

instantiation double :: "{zero, one, plus, minus, uminus, times, inverse, abs, ord}"
begin

definition zero_double :: double where
  "zero_double = Fin 0"

definition one_double :: double where
  "one_double = Fin 1"

definition plus_double :: "double \<Rightarrow> double \<Rightarrow> double" where
  "plus_double = dadd"

definition uminus_double :: "double \<Rightarrow> double" where
  "uminus_double = dneg"

definition minus_double :: "double \<Rightarrow> double \<Rightarrow> double" where
  "minus_double a b = dadd a (dneg b)"

definition times_double :: "double \<Rightarrow> double \<Rightarrow> double" where
  "times_double = dmul"

definition divide_double :: "double \<Rightarrow> double \<Rightarrow> double" where
  "divide_double = ddiv"

definition inverse_double :: "double \<Rightarrow> double" where
  "inverse_double a = ddiv (Fin 1) a"

definition abs_double :: "double \<Rightarrow> double" where
  "abs_double = dabs"

definition less_double :: "double \<Rightarrow> double \<Rightarrow> bool" where
  "less_double = dless"

definition less_eq_double :: "double \<Rightarrow> double \<Rightarrow> bool" where
  "less_eq_double a b = (dless a b \<or> (a = b \<and> a \<noteq> NaN))"

instance ..

end

text \<open>The elementary functions the source calls: \<^verbatim>\<open>sqrt\<close>, \<^verbatim>\<open>exp\<close>, \<^verbatim>\<open>log\<close>, \<^verbatim>\<open>expm1\<close>.\<close>

fun dsqrt :: "double \<Rightarrow> double" where
  "dsqrt (Fin a) = (if a < 0 then NaN else Fin (sqrt a))"
| "dsqrt PInf = PInf"
| "dsqrt _ = NaN"

fun dexp :: "double \<Rightarrow> double" where
  "dexp (Fin a) = Fin (exp a)"
| "dexp PInf = PInf"
| "dexp NInf = Fin 0"
| "dexp NaN = NaN"

fun dlog :: "double \<Rightarrow> double" where
  "dlog (Fin a) = (if a < 0 then NaN else if a = 0 then NInf else Fin (ln a))"
| "dlog PInf = PInf"
| "dlog _ = NaN"

fun expm1 :: "double \<Rightarrow> double" where
  "expm1 (Fin a) = Fin (exp a - 1)"
| "expm1 PInf = PInf"
| "expm1 NInf = Fin (- 1)"
| "expm1 NaN = NaN"

section \<open>Vectors and matrices\<close>

text \<open>
  An Armadillo or Rcpp vector is a list; a matrix is the list of its rows. The
  operations are the ones the source uses: \<^verbatim>\<open>+\<close>, \<^verbatim>\<open>%\<close> (elementwise product),
  scalar times vector, matrix times vector, \<^verbatim>\<open>A * B.t()\<close>, \<^verbatim>\<open>has_nan\<close>,
  \<^verbatim>\<open>any(v < 0)\<close>, \<^verbatim>\<open>norm(v, 1)\<close> and \<^verbatim>\<open>normalise(v, 1)\<close>.
\<close>

type_synonym vec = "double list"
type_synonym mat = "double list list"

definition zeros :: "nat \<Rightarrow> vec" where
  "zeros n = replicate n 0"

fun vsum :: "vec \<Rightarrow> double" where
  "vsum [] = 0"
| "vsum (x # xs) = x + vsum xs"

definition vec_add :: "vec \<Rightarrow> vec \<Rightarrow> vec" where
  "vec_add a b = map2 (+) a b"

definition vec_mul :: "vec \<Rightarrow> vec \<Rightarrow> vec" where
  "vec_mul a b = map2 (*) a b"

definition vec_scale :: "double \<Rightarrow> vec \<Rightarrow> vec" where
  "vec_scale c v = map ((*) c) v"

definition dot :: "vec \<Rightarrow> vec \<Rightarrow> double" where
  "dot a b = vsum (vec_mul a b)"

definition mat_vec :: "mat \<Rightarrow> vec \<Rightarrow> vec" where
  "mat_vec M v = map (\<lambda>row. dot row v) M"

definition mat_mul_t :: "mat \<Rightarrow> mat \<Rightarrow> mat" where
  \<comment> \<open>\<^verbatim>\<open>A * B.t()\<close>: entry \<open>(i, k)\<close> is the sum over \<open>j\<close> of \<open>A(i, j) * B(k, j)\<close>.\<close>
  "mat_mul_t A B = map (\<lambda>a. map (\<lambda>b. dot a b) B) A"

definition mat_col :: "mat \<Rightarrow> nat \<Rightarrow> vec" where
  "mat_col M k = map (\<lambda>row. row ! k) M"

definition has_nan :: "vec \<Rightarrow> bool" where
  "has_nan v = (NaN \<in> set v)"

definition mat_has_nan :: "mat \<Rightarrow> bool" where
  "mat_has_nan M = (\<exists>row \<in> set M. has_nan row)"

definition any_neg :: "vec \<Rightarrow> bool" where
  "any_neg v = (\<exists>x \<in> set v. x < 0)"

definition norm1 :: "vec \<Rightarrow> double" where
  "norm1 v = vsum (map abs v)"

definition normalise :: "vec \<Rightarrow> vec" where
  \<comment> \<open>Armadillo's \<^verbatim>\<open>normalise(v, 1)\<close>: \<open>v\<close> divided by its 1-norm, and by 1 when
      the norm is zero.\<close>
  "normalise v = (let n = norm1 v; d = (if n \<noteq> 0 then n else 1) in map (\<lambda>x. x / d) v)"

definition mat_of_colmajor :: "nat \<Rightarrow> nat \<Rightarrow> vec \<Rightarrow> mat" where
  \<comment> \<open>The \<open>nr\<close> by \<open>nc\<close> matrix whose column-major storage is \<open>xs\<close>
      (\<^verbatim>\<open>std::copy\<close> into \<^verbatim>\<open>lna_diffusion.begin()\<close>).\<close>
  "mat_of_colmajor nr nc xs = map (\<lambda>r. map (\<lambda>c. xs ! (c * nr + r)) [0..<nc]) [0..<nr]"

section \<open>The path engine \<^verbatim>\<open>propose_lna\<close>\<close>

subsection \<open>Arguments, failures, state\<close>

record lna_inputs =
  lna_times :: vec
  lna_draws :: vec
  lna_pars :: mat
  lna_param_inds :: "int list"
  lna_tcovar_inds :: "int list"
  init_start :: nat
  param_update_inds :: "bool list"
  stoich_matrix :: mat
  forcing_inds :: "bool list"
  forcing_tcov_inds :: "nat list"
  forcings_out :: mat
  forcing_transfers :: "mat list"
  max_attempts :: int
  step_size :: double

text \<open>
  The four \<^verbatim>\<open>std::runtime_error\<close>s of the source, named by their kind:
  \<^verbatim>\<open>"Integration failed."\<close>, \<^verbatim>\<open>"SVD failed."\<close>, \<^verbatim>\<open>"Negative increment."\<close> and
  \<^verbatim>\<open>"Negative compartment volumes."\<close>.
\<close>

datatype error = IntegrationFailure | DecompositionFailure | NegativeIncrement | NegativeVolume

text \<open>
  The solver handle \<^verbatim>\<open>lna_pointer\<close>: from the parameters installed in the solver,
  the buffer, the interval endpoints and the step size to the buffer it leaves.
  The decomposition \<^verbatim>\<open>arma::svd\<close>: \<open>None\<close> when it does not converge, else
  \<open>(U, d, V)\<close>.
\<close>

type_synonym lna_solver = "vec \<Rightarrow> vec \<Rightarrow> double \<Rightarrow> double \<Rightarrow> double \<Rightarrow> vec"
type_synonym svd_fun = "mat \<Rightarrow> (mat \<times> vec \<times> mat) option"

text \<open>
  The variables that live across intervals. \<open>ode_params\<close> is the parameter vector
  held by the solver; the two paths are kept as the lists of their columns (the
  rows of the transposed matrices the function returns).
\<close>

record lna_state =
  current_params :: vec
  ode_params :: vec
  init_volumes :: vec
  lna_path :: mat
  prev_path :: mat

record lna_output =
  out_draws :: mat
  out_lna_path :: mat
  out_prev_path :: mat

definition n_events :: "lna_inputs \<Rightarrow> nat" where
  "n_events inp = (case stoich_matrix inp of [] \<Rightarrow> 0 | row # _ \<Rightarrow> length row)"

definition n_comps :: "lna_inputs \<Rightarrow> nat" where
  "n_comps inp = length (stoich_matrix inp)"

definition n_odes :: "lna_inputs \<Rightarrow> nat" where
  "n_odes inp = n_events inp + n_events inp * n_events inp"

definition n_times :: "lna_inputs \<Rightarrow> nat" where
  "n_times inp = length (lna_times inp)"

definition n_tcovar :: "lna_inputs \<Rightarrow> nat" where
  "n_tcovar inp = length (lna_tcovar_inds inp)"

definition n_forcings :: "lna_inputs \<Rightarrow> nat" where
  "n_forcings inp = length (forcing_tcov_inds inp)"

definition CALL_SET_ODE_PARAMS :: "vec \<Rightarrow> lna_state \<Rightarrow> lna_state" where
  \<comment> \<open>Modelled from the spec: the macro and the handle \<^verbatim>\<open>set_pars_pointer\<close> are
      declared in \<^verbatim>\<open>stemr_utils.h\<close>; the install callback copies the parameter
      vector into the solver's internal state.\<close>
  "CALL_SET_ODE_PARAMS p st = st\<lparr>ode_params := p\<rparr>"

definition set_col_span :: "mat \<Rightarrow> nat \<Rightarrow> vec \<Rightarrow> mat" where
  \<comment> \<open>\<^verbatim>\<open>path(arma::span(1, n), k) = v\<close>: rows 1 to n of column k; row 0 stays.\<close>
  "set_col_span path k v = path[k := hd (path ! k) # v]"

definition draws_col :: "lna_inputs \<Rightarrow> nat \<Rightarrow> vec" where
  \<comment> \<open>Column \<open>j\<close> of the \<open>n_events\<close> by \<open>n_times - 1\<close> matrix built on the draws.\<close>
  "draws_col inp j = take (n_events inp) (drop (j * n_events inp) (lna_draws inp))"

subsection \<open>Forcings (lines 95-104 and 189-197)\<close>

definition forcing_step :: "lna_inputs \<Rightarrow> nat \<Rightarrow> vec \<Rightarrow> nat \<Rightarrow> vec" where
  "forcing_step inp t vols s =
     (let forcing_flow = lna_pars inp ! t ! (forcing_tcov_inds inp ! s);
          forcing_distvec =
            vec_scale forcing_flow (normalise (vec_mul (mat_col (forcings_out inp) s) vols))
      in vec_add vols (mat_vec (forcing_transfers inp ! s) forcing_distvec))"

definition apply_forcings :: "lna_inputs \<Rightarrow> nat \<Rightarrow> vec \<Rightarrow> vec" where
  "apply_forcings inp t vols = foldl (forcing_step inp t) vols [0..<n_forcings inp]"

subsection \<open>Initialisation (lines 51-108)\<close>

definition lna_init :: "lna_inputs \<Rightarrow> vec \<Rightarrow> lna_state" where
  "lna_init inp ode0 =
     (let params0 = lna_pars inp ! 0;
          volumes0 = take (n_comps inp) (drop (init_start inp) params0);
          st = CALL_SET_ODE_PARAMS params0
                 \<lparr>current_params = params0, ode_params = ode0, init_volumes = volumes0,
                  lna_path = map (\<lambda>t. t # zeros (n_events inp)) (lna_times inp),
                  prev_path =
                    set_col_span (map (\<lambda>t. t # zeros (n_comps inp)) (lna_times inp)) 0 volumes0\<rparr>
      in if forcing_inds inp ! 0
         then st\<lparr>init_volumes := apply_forcings inp 0 (init_volumes st)\<rparr>
         else st)"

subsection \<open>One interval (lines 111-229)\<close>

definition lna_moments :: "lna_solver \<Rightarrow> lna_inputs \<Rightarrow> nat \<Rightarrow> lna_state \<Rightarrow> vec \<times> mat" where
  \<comment> \<open>Lines 114-123: integrate from the zeroed buffer, split drift and diffusion.
      Modelled from the spec: the macro \<^verbatim>\<open>CALL_INTEGRATE_STEM_ODE\<close> is declared in
      \<^verbatim>\<open>stemr_utils.h\<close>; the solver integrates over the interval from the parameters
      installed in it and writes drift, then diffusion, into the buffer.\<close>
  "lna_moments integrate inp j st =
     (let t_L = lna_times inp ! j;
          t_R = lna_times inp ! (j + 1);
          lna_state_vec = integrate (ode_params st) (zeros (n_odes inp)) t_L t_R (step_size inp)
      in (take (n_events inp) lna_state_vec,
          mat_of_colmajor (n_events inp) (n_events inp) (drop (n_events inp) lna_state_vec)))"

definition zero_where :: "mat \<Rightarrow> mat \<Rightarrow> mat" where
  \<comment> \<open>\<^verbatim>\<open>S.elem(arma::find(D == 0)).zeros()\<close>, for \<open>S\<close> of the size of \<open>D\<close>.\<close>
  "zero_where D S = map2 (\<lambda>drow srow. map2 (\<lambda>x s. if x = 0 then 0 else s) drow srow) D S"

definition svd_sqrt :: "mat \<Rightarrow> mat \<times> vec \<times> mat \<Rightarrow> mat" where
  \<comment> \<open>Lines 138-141, on the factors \<^verbatim>\<open>arma::svd\<close> returned.\<close>
  "svd_sqrt lna_diffusion udv =
     (case udv of (svd_U, svd_d, svd_V) \<Rightarrow>
        let d1 = map (\<lambda>x. if x < 0 then 0 else x) svd_d;
            V1 = map (\<lambda>row. vec_mul row (map dsqrt d1)) svd_V;
            U1 = mat_mul_t svd_U V1
        in zero_where lna_diffusion U1)"

definition lna_log_increment ::
  "svd_fun \<Rightarrow> lna_inputs \<Rightarrow> nat \<Rightarrow> vec \<Rightarrow> mat \<Rightarrow> error + vec" where
  \<comment> \<open>The first \<^verbatim>\<open>try\<close> block, lines 126-158.\<close>
  "lna_log_increment svd inp j lna_drift lna_diffusion =
     (if has_nan lna_drift \<or> mat_has_nan lna_diffusion then Inl IntegrationFailure
      else (case svd lna_diffusion of
              None \<Rightarrow> Inl DecompositionFailure
            | Some udv \<Rightarrow>
                Inr (vec_add lna_drift (mat_vec (svd_sqrt lna_diffusion udv) (draws_col inp j)))))"

definition lna_census :: "nat \<Rightarrow> vec \<Rightarrow> lna_state \<Rightarrow> lna_state" where
  \<comment> \<open>Lines 185-186: save the increment and the prevalence in column \<open>j + 1\<close>.\<close>
  "lna_census j nat_lna st =
     st\<lparr>lna_path := set_col_span (lna_path st) (j + 1) nat_lna,
        prev_path := set_col_span (prev_path st) (j + 1) (init_volumes st)\<rparr>"

definition lna_forcing :: "lna_inputs \<Rightarrow> nat \<Rightarrow> lna_state \<Rightarrow> (error \<times> lna_state) + lna_state" where
  \<comment> \<open>Lines 189-212.\<close>
  "lna_forcing inp j st =
     (if forcing_inds inp ! (j + 1)
      then (let st1 = st\<lparr>init_volumes := apply_forcings inp (j + 1) (init_volumes st)\<rparr>
            in if any_neg (init_volumes st1) then Inl (NegativeVolume, st1) else Inr st1)
      else Inr st)"

definition refresh_tcovar :: "lna_inputs \<Rightarrow> nat \<Rightarrow> vec \<Rightarrow> vec" where
  \<comment> \<open>Lines 215-222: the last \<open>n_tcovar\<close> entries, from row \<open>j + 1\<close>.\<close>
  "refresh_tcovar inp j params =
     (if param_update_inds inp ! (j + 1)
      then (let row = lna_pars inp ! (j + 1)
            in take (length params - n_tcovar inp) params @ drop (length row - n_tcovar inp) row)
      else params)"

definition copy_volumes :: "lna_inputs \<Rightarrow> vec \<Rightarrow> vec \<Rightarrow> vec" where
  \<comment> \<open>Line 225: the volumes over the entries from \<open>init_start\<close> on.\<close>
  "copy_volumes inp vols params =
     take (init_start inp) params @ vols @ drop (init_start inp + length vols) params"

definition lna_refresh :: "lna_inputs \<Rightarrow> nat \<Rightarrow> lna_state \<Rightarrow> lna_state" where
  \<comment> \<open>Lines 215-228.\<close>
  "lna_refresh inp j st =
     (let params = copy_volumes inp (init_volumes st) (refresh_tcovar inp j (current_params st))
      in CALL_SET_ODE_PARAMS params (st\<lparr>current_params := params\<rparr>))"

definition lna_increment ::
  "lna_solver \<Rightarrow> svd_fun \<Rightarrow> lna_inputs \<Rightarrow> nat \<Rightarrow> lna_state \<Rightarrow> error + vec" where
  \<comment> \<open>Lines 114-161: the increment of the interval on the natural scale.\<close>
  "lna_increment integrate svd inp j st =
     (case lna_moments integrate inp j st of (lna_drift, lna_diffusion) \<Rightarrow>
        (case lna_log_increment svd inp j lna_drift lna_diffusion of
           Inl e \<Rightarrow> Inl e
         | Inr log_lna \<Rightarrow> Inr (map expm1 log_lna)))"

text \<open>
  The body of the loop. A failure carries the state at the \<^verbatim>\<open>throw\<close>, so that the
  order of the updates and the checks can be read off the model.
\<close>

definition lna_interval ::
  "lna_solver \<Rightarrow> svd_fun \<Rightarrow> lna_inputs \<Rightarrow> nat \<Rightarrow> lna_state \<Rightarrow> (error \<times> lna_state) + lna_state" where
  "lna_interval integrate svd inp j st =
     (case lna_increment integrate svd inp j st of
        Inl e \<Rightarrow> Inl (e, st)
      | Inr nat_lna \<Rightarrow>
          (let st1 = st\<lparr>init_volumes :=
                        vec_add (init_volumes st) (mat_vec (stoich_matrix inp) nat_lna)\<rparr>
           in if any_neg nat_lna then Inl (NegativeIncrement, st1)
              else if any_neg (init_volumes st1) then Inl (NegativeVolume, st1)
              else (case lna_forcing inp j (lna_census j nat_lna st1) of
                      Inl f \<Rightarrow> Inl f
                    | Inr st2 \<Rightarrow> Inr (lna_refresh inp j st2))))"

subsection \<open>The loop and the function\<close>

fun lna_loop ::
  "lna_solver \<Rightarrow> svd_fun \<Rightarrow> lna_inputs \<Rightarrow> nat list \<Rightarrow> lna_state \<Rightarrow> (error \<times> lna_state) + lna_state" where
  "lna_loop integrate svd inp [] st = Inr st"
| "lna_loop integrate svd inp (j # js) st =
     (case lna_interval integrate svd inp j st of
        Inl f \<Rightarrow> Inl f
      | Inr st1 \<Rightarrow> lna_loop integrate svd inp js st1)"

definition draws_mat :: "lna_inputs \<Rightarrow> mat" where
  \<comment> \<open>The draws as returned: listed by column here.\<close>
  "draws_mat inp = map (draws_col inp) [0..<n_times inp - 1]"

definition propose_lna ::
  "lna_solver \<Rightarrow> svd_fun \<Rightarrow> lna_inputs \<Rightarrow> vec \<Rightarrow> error + lna_output" where
  \<comment> \<open>\<open>ode0\<close>: the parameters the solver holds when the function is entered.\<close>
  "propose_lna integrate svd inp ode0 =
     (case lna_loop integrate svd inp [0..<n_times inp - 1] (lna_init inp ode0) of
        Inl (e, st) \<Rightarrow> Inl e
      | Inr st \<Rightarrow>
          Inr \<lparr>out_draws = draws_mat inp, out_lna_path = lna_path st,
               out_prev_path = prev_path st\<rparr>)"

subsection \<open>Well-formed arguments\<close>

text \<open>
  The source indexes its arguments unchecked, so it is defined only on arguments
  whose dimensions fit: at least one grid time, compartment and event; a rectangular
  stoichiometry matrix; a draw for every event and interval; a parameter row, an
  update flag and a forcing flag for every grid time; the volumes and the
  time-varying tail inside a parameter row; and forcing tensors of the size of the
  model.
\<close>

definition valid_invocation :: "lna_inputs \<Rightarrow> bool" where
  "valid_invocation inp \<longleftrightarrow>
     1 \<le> n_times inp \<and> 1 \<le> n_comps inp \<and> 1 \<le> n_events inp \<and>
     (\<forall>row \<in> set (stoich_matrix inp). length row = n_events inp) \<and>
     n_events inp * (n_times inp - 1) \<le> length (lna_draws inp) \<and>
     n_times inp \<le> length (lna_pars inp) \<and>
     (\<forall>row \<in> set (lna_pars inp). length row = length (lna_pars inp ! 0)) \<and>
     init_start inp + n_comps inp \<le> length (lna_pars inp ! 0) \<and>
     n_tcovar inp \<le> length (lna_pars inp ! 0) \<and>
     n_times inp \<le> length (param_update_inds inp) \<and>
     n_times inp \<le> length (forcing_inds inp) \<and>
     (\<forall>c \<in> set (forcing_tcov_inds inp). c < length (lna_pars inp ! 0)) \<and>
     length (forcings_out inp) = n_comps inp \<and>
     (\<forall>row \<in> set (forcings_out inp). n_forcings inp \<le> length row) \<and>
     n_forcings inp \<le> length (forcing_transfers inp) \<and>
     (\<forall>T \<in> set (forcing_transfers inp).
        length T = n_comps inp \<and> (\<forall>row \<in> set T. length row = n_comps inp))"

subsection \<open>The state between intervals\<close>

definition forced_at :: "lna_inputs \<Rightarrow> nat \<Rightarrow> vec \<Rightarrow> vec" where
  \<comment> \<open>The volumes after the forcings scheduled at grid time \<open>t\<close>, if any.\<close>
  "forced_at inp t vols = (if forcing_inds inp ! t then apply_forcings inp t vols else vols)"

definition path_inv :: "lna_inputs \<Rightarrow> nat \<Rightarrow> lna_state \<Rightarrow> bool" where
  \<comment> \<open>What holds of the state when \<open>k\<close> intervals are done.\<close>
  "path_inv inp k st \<longleftrightarrow>
     length (lna_path st) = n_times inp \<and> length (prev_path st) = n_times inp \<and>
     (\<forall>i < n_times inp. hd (lna_path st ! i) = lna_times inp ! i \<and>
                        hd (prev_path st ! i) = lna_times inp ! i) \<and>
     init_volumes st = forced_at inp k (tl (prev_path st ! k)) \<and>
     prev_path st ! 0 =
       lna_times inp ! 0 # take (n_comps inp) (drop (init_start inp) (lna_pars inp ! 0)) \<and>
     (\<forall>j < k. tl (prev_path st ! Suc j) =
        vec_add (forced_at inp j (tl (prev_path st ! j)))
                (mat_vec (stoich_matrix inp) (tl (lna_path st ! Suc j))))"

definition snapshot_inv :: "lna_inputs \<Rightarrow> lna_state \<Rightarrow> bool" where
  \<comment> \<open>The snapshot has the length of a parameter row, as many working volumes as
      compartments, and the entries outside the volumes and the tail are those of row 0.\<close>
  "snapshot_inv inp st \<longleftrightarrow>
     length (current_params st) = length (lna_pars inp ! 0) \<and>
     length (init_volumes st) = n_comps inp \<and>
     ode_params st = current_params st \<and>
     (\<forall>i < length (lna_pars inp ! 0).
        \<not> (init_start inp \<le> i \<and> i < init_start inp + n_comps inp) \<and>
        i < length (lna_pars inp ! 0) - n_tcovar inp \<longrightarrow>
        current_params st ! i = lna_pars inp ! 0 ! i)"

subsection \<open>The matrix product of the specification\<close>

text \<open>
  The operations the specification names for the square root: the product of two
  matrices, the transpose, and the diagonal matrix of a vector. \<open>is_fin\<close> holds of
  the doubles that are neither NaN nor infinite.
\<close>

fun is_fin :: "double \<Rightarrow> bool" where
  "is_fin (Fin a) = True"
| "is_fin _ = False"

definition n_cols :: "mat \<Rightarrow> nat" where
  "n_cols M = (case M of [] \<Rightarrow> 0 | row # _ \<Rightarrow> length row)"

definition mat_mul :: "mat \<Rightarrow> mat \<Rightarrow> mat" where
  "mat_mul A B = map (\<lambda>a. map (\<lambda>k. dot a (mat_col B k)) [0..<n_cols B]) A"

definition mat_transpose :: "mat \<Rightarrow> mat" where
  "mat_transpose M = map (mat_col M) [0..<n_cols M]"

definition diag_mat :: "vec \<Rightarrow> mat" where
  "diag_mat v = map (\<lambda>i. map (\<lambda>j. if i = j then v ! i else 0) [0..<length v]) [0..<length v]"

subsection \<open>An interval with zero drift\<close>

definition zero_drift_at ::
  "lna_solver \<Rightarrow> svd_fun \<Rightarrow> lna_inputs \<Rightarrow> nat \<Rightarrow> lna_state \<Rightarrow> bool" where
  \<comment> \<open>In interval \<open>j\<close>, entered in state \<open>st\<close>, the solver leaves a zero drift and a
      diffusion with no NaN, and the decomposition of that diffusion converges, to
      factors with as many rows in \<open>U\<close> as events and no NaN or infinite entry.\<close>
  "zero_drift_at integrate svd inp j st \<longleftrightarrow>
     (case lna_moments integrate inp j st of (lna_drift, lna_diffusion) \<Rightarrow>
        lna_drift = zeros (n_events inp) \<and> \<not> mat_has_nan lna_diffusion \<and>
        (case svd lna_diffusion of
           None \<Rightarrow> False
         | Some (U, d, V) \<Rightarrow>
             length U = n_events inp \<and> (\<forall>row \<in> set U. list_all is_fin row) \<and>
             list_all is_fin d \<and> (\<forall>row \<in> set V. list_all is_fin row)))"

subsection \<open>The forcings, as the specification words them\<close>

text \<open>
  The 1-normalisation of a vector: its entries divided by the sum of their absolute
  values, and the vector itself when that sum is zero.
\<close>

definition l1_normalised :: "vec \<Rightarrow> vec" where
  "l1_normalised w = (if norm1 w = 0 then w else map (\<lambda>x. x / norm1 w) w)"

text \<open>
  The volumes after the first \<open>k\<close> forcing types of grid time \<open>t\<close>: type \<open>k\<close> adds
  its transfer matrix times its magnitude times the 1-normalised product of its
  weights with the volumes the types before it left.
\<close>

fun forcing_spec :: "lna_inputs \<Rightarrow> nat \<Rightarrow> vec \<Rightarrow> nat \<Rightarrow> vec" where
  "forcing_spec inp t vols 0 = vols"
| "forcing_spec inp t vols (Suc k) =
     (let pre = forcing_spec inp t vols k;
          magnitude = lna_pars inp ! t ! (forcing_tcov_inds inp ! k);
          d = l1_normalised (vec_mul (mat_col (forcings_out inp) k) pre)
      in vec_add pre (mat_vec (forcing_transfers inp ! k) (vec_scale magnitude d)))"

section \<open>The interval-width adapter \<^verbatim>\<open>update_interval_widths\<close>\<close>

text \<open>
  The function updates four of its vectors in place; they are the fields of the
  record it takes and returns. The cumulative counts are read only. Armadillo's
  operations by element want vectors of one size.
\<close>

record afss_vectors =
  interval_widths :: vec
  n_expansions_afss :: vec
  n_contractions_afss :: vec
  slice_ratios :: vec

definition vec_div :: "vec \<Rightarrow> vec \<Rightarrow> vec" where
  "vec_div a b = map2 (/) a b"

definition find_zeros :: "vec \<Rightarrow> nat list" where
  \<comment> \<open>\<^verbatim>\<open>arma::find(v == 0)\<close>: the indices of the zero entries, ascending.\<close>
  "find_zeros v = filter (\<lambda>i. v ! i = 0) [0..<length v]"

definition elem_assign :: "vec \<Rightarrow> nat list \<Rightarrow> vec \<Rightarrow> vec" where
  \<comment> \<open>\<^verbatim>\<open>v.elem(idx) = src.elem(idx)\<close>.\<close>
  "elem_assign v idx src = foldl (\<lambda>w i. w[i := src ! i]) v idx"

definition update_interval_widths ::
  "afss_vectors \<Rightarrow> vec \<Rightarrow> vec \<Rightarrow> double \<Rightarrow> double \<Rightarrow> afss_vectors" where
  "update_interval_widths a c_expansions_afss c_contractions_afss adaptation_factor target_ratio =
     (let ratios = vec_div c_expansions_afss (vec_add c_expansions_afss c_contractions_afss);
          exp_zeros = find_zeros (n_expansions_afss a);
          con_zeros = find_zeros (n_contractions_afss a);
          n_exp = elem_assign (n_expansions_afss a) exp_zeros ratios;
          n_con = elem_assign (n_contractions_afss a) con_zeros ratios;
          widths = map dexp
            (vec_add (map dlog (interval_widths a))
               (vec_scale adaptation_factor
                  (map (\<lambda>x. x - target_ratio) (vec_div n_exp (vec_add n_exp n_con)))))
      in \<lparr>interval_widths = widths,
          n_expansions_afss = zeros (length n_exp),
          n_contractions_afss = zeros (length n_con),
          slice_ratios = ratios\<rparr>)"

section \<open>Example arguments\<close>

text \<open>
  A model with two compartments and one event that moves one unit from the first to
  the second, on the grid \<open>0, 1\<close>. A parameter row is \<open>[flow, S, I]\<close>: the volumes
  start at index 1, and the forcing reads its magnitude in column 0. The forcing
  draws on the first compartment only and moves its flow from the first to the
  second compartment. No forcing is scheduled.
\<close>

definition ex_inp :: lna_inputs where
  "ex_inp = \<lparr>lna_times = [Fin 0, Fin 1], lna_draws = [Fin 0],
     lna_pars = [[Fin 2, Fin 10, Fin 0], [Fin 2, Fin 10, Fin 0]],
     lna_param_inds = [0], lna_tcovar_inds = [],
     init_start = 1, param_update_inds = [False, False],
     stoich_matrix = [[Fin (- 1)], [Fin 1]],
     forcing_inds = [False, False], forcing_tcov_inds = [0],
     forcings_out = [[Fin 1], [Fin 0]],
     forcing_transfers = [[[Fin (- 1), Fin 0], [Fin 1, Fin 0]]],
     max_attempts = 1, step_size = Fin 1\<rparr>"

definition ex_forcing_first :: lna_inputs where
  \<comment> \<open>The same, with a forcing at the first grid time.\<close>
  "ex_forcing_first = ex_inp\<lparr>forcing_inds := [True, False]\<rparr>"

definition ex_forcing_last :: lna_inputs where
  \<comment> \<open>The same, with a forcing at the second grid time.\<close>
  "ex_forcing_last = ex_inp\<lparr>forcing_inds := [False, True]\<rparr>"

definition ex_three_times :: lna_inputs where
  \<comment> \<open>Three grid times and a time-varying last column: a forcing at the first two
      times, a refresh of the tail at the last.\<close>
  "ex_three_times = ex_inp\<lparr>lna_times := [Fin 0, Fin 1, Fin 2], lna_draws := [Fin 0, Fin 0],
     lna_pars := [[Fin 2, Fin 10, Fin 0, Fin 5], [Fin 4, Fin 10, Fin 0, Fin 6],
                  [Fin 1, Fin 10, Fin 0, Fin 7]],
     lna_tcovar_inds := [3],
     param_update_inds := [False, False, True], forcing_inds := [True, True, False]\<rparr>"

definition solver_drift :: "double \<Rightarrow> lna_solver" where
  \<comment> \<open>A solver for one event: the given drift and a zero diffusion on every interval.\<close>
  "solver_drift x p buf t_L t_R h = [x, Fin 0]"

definition svd_unit :: svd_fun where
  \<comment> \<open>A decomposition of the 1 by 1 zero matrix.\<close>
  "svd_unit M = Some ([[Fin 1]], [Fin 0], [[Fin 1]])"

definition svd_fails :: svd_fun where
  "svd_fails M = None"

definition ex_afss :: afss_vectors where
  "ex_afss = \<lparr>interval_widths = [Fin 1, Fin 1], n_expansions_afss = [Fin 0, Fin 1],
     n_contractions_afss = [Fin 3, Fin 1], slice_ratios = [Fin 0, Fin 0]\<rparr>"

definition svd_two :: svd_fun where
  \<comment> \<open>The decomposition of the diagonal matrix with the entries 4 and 1.\<close>
  "svd_two M = Some ([[Fin 1, Fin 0], [Fin 0, Fin 1]], [Fin 4, Fin 1],
                     [[Fin 1, Fin 0], [Fin 0, Fin 1]])"

definition ex_empty_source :: lna_inputs where
  \<comment> \<open>A forcing at the first grid time that draws on an empty compartment.\<close>
  "ex_empty_source = ex_forcing_first\<lparr>lna_pars := [[Fin 2, Fin 0, Fin 10], [Fin 2, Fin 0, Fin 10]]\<rparr>"

definition ex_negative_weight :: lna_inputs where
  \<comment> \<open>A forcing at the first grid time with a negative weight.\<close>
  "ex_negative_weight = ex_forcing_first\<lparr>forcings_out := [[Fin (- 1)], [Fin 0]]\<rparr>"

definition solver_param :: lna_solver where
  \<comment> \<open>A solver for one event whose drift depends on the parameters installed: the
      first parameter less 2, with the diffusion 4.\<close>
  "solver_param p buf t_L t_R h = [p ! 0 - Fin 2, Fin 4]"

definition svd_one :: svd_fun where
  \<comment> \<open>The decomposition of a 1 by 1 matrix with a finite entry; no convergence on
      any other argument.\<close>
  "svd_one M =
     (case M of
        [[Fin a]] \<Rightarrow> Some ([[Fin 1]], [Fin \<bar>a\<bar>], [[Fin (if a < 0 then - 1 else 1)]])
      | _ \<Rightarrow> None)"

section \<open>Properties\<close>

subsection \<open>Evaluation\<close>

lemma double_arith_simps:
  "(0::double) = Fin 0" "(1::double) = Fin 1" "a + b = dadd a b" "- a = dneg a"
  "a - b = dadd a (dneg b)" "a * b = dmul a b" "a / b = ddiv a b" "\<bar>a\<bar> = dabs a"
  "(a < b) = dless a b"
  by (simp_all add: zero_double_def one_double_def plus_double_def uminus_double_def
      minus_double_def times_double_def divide_double_def abs_double_def less_double_def)

lemmas engine_defs =
  propose_lna_def lna_init_def lna_interval_def lna_increment_def lna_moments_def
  lna_log_increment_def svd_sqrt_def lna_census_def lna_forcing_def refresh_tcovar_def
  copy_volumes_def lna_refresh_def draws_mat_def CALL_SET_ODE_PARAMS_def set_col_span_def
  draws_col_def forcing_step_def apply_forcings_def forced_at_def n_events_def n_comps_def
  n_odes_def n_times_def n_tcovar_def n_forcings_def zeros_def vec_add_def vec_mul_def
  vec_scale_def dot_def mat_vec_def mat_mul_t_def mat_col_def has_nan_def mat_has_nan_def
  any_neg_def norm1_def normalise_def mat_of_colmajor_def zero_where_def valid_invocation_def
  Let_def

lemmas example_defs =
  ex_inp_def ex_forcing_first_def ex_forcing_last_def ex_three_times_def solver_drift_def
  svd_unit_def svd_fails_def solver_param_def svd_one_def ex_empty_source_def
  ex_negative_weight_def

subsection \<open>The loop, one interval at a time\<close>

lemma lna_loop_append:
  "lna_loop integrate svd inp (js @ ks) st =
     (case lna_loop integrate svd inp js st of
        Inl f \<Rightarrow> Inl f
      | Inr st1 \<Rightarrow> lna_loop integrate svd inp ks st1)"
  by (induction js arbitrary: st) (auto split: sum.splits)

lemma lna_loop_Suc:
  "lna_loop integrate svd inp [0..<Suc k] st =
     (case lna_loop integrate svd inp [0..<k] st of
        Inl f \<Rightarrow> Inl f
      | Inr st1 \<Rightarrow> lna_interval integrate svd inp k st1)"
  by (simp add: lna_loop_append split: sum.splits)

lemma lna_interval_Inr:
  assumes "lna_interval integrate svd inp j st = Inr st'"
  obtains nat_lna where
    "lna_increment integrate svd inp j st = Inr nat_lna"
    "\<not> any_neg nat_lna"
    "lna_path st' = set_col_span (lna_path st) (Suc j) nat_lna"
    "prev_path st' = set_col_span (prev_path st) (Suc j)
        (vec_add (init_volumes st) (mat_vec (stoich_matrix inp) nat_lna))"
    "init_volumes st' =
        forced_at inp (Suc j) (vec_add (init_volumes st) (mat_vec (stoich_matrix inp) nat_lna))"
    "\<not> any_neg (vec_add (init_volumes st) (mat_vec (stoich_matrix inp) nat_lna))"
    "\<not> any_neg (init_volumes st')"
    "current_params st' =
        copy_volumes inp (init_volumes st') (refresh_tcovar inp j (current_params st))"
    "ode_params st' = current_params st'"
  using assms
  unfolding lna_interval_def
  by (auto simp: Let_def lna_forcing_def lna_census_def lna_refresh_def CALL_SET_ODE_PARAMS_def
      forced_at_def split: prod.splits sum.splits if_splits)

subsection \<open>The two paths\<close>

lemma path_inv_init:
  assumes "1 \<le> n_times inp"
  shows "path_inv inp 0 (lna_init inp ode0)"
proof -
  obtain t ts where ts: "lna_times inp = t # ts"
    using assms by (cases "lna_times inp") (auto simp: n_times_def)
  show ?thesis
    unfolding path_inv_def
    by (auto simp: lna_init_def Let_def CALL_SET_ODE_PARAMS_def set_col_span_def forced_at_def
        n_times_def ts nth_Cons split: nat.splits)
qed

lemma path_inv_step:
  assumes inv: "path_inv inp k st"
    and k: "Suc k < n_times inp"
    and step: "lna_interval integrate svd inp k st = Inr st'"
  shows "path_inv inp (Suc k) st'"
proof -
  from step obtain nat_lna where
    lp: "lna_path st' = set_col_span (lna_path st) (Suc k) nat_lna" and
    pp: "prev_path st' = set_col_span (prev_path st) (Suc k)
        (vec_add (init_volumes st) (mat_vec (stoich_matrix inp) nat_lna))" and
    iv: "init_volumes st' =
        forced_at inp (Suc k) (vec_add (init_volumes st) (mat_vec (stoich_matrix inp) nat_lna))"
    by (rule lna_interval_Inr) auto
  from inv have len: "length (lna_path st) = n_times inp" "length (prev_path st) = n_times inp"
    and hds: "\<And>i. i < n_times inp \<Longrightarrow> hd (lna_path st ! i) = lna_times inp ! i \<and>
                        hd (prev_path st ! i) = lna_times inp ! i"
    and vol: "init_volumes st = forced_at inp k (tl (prev_path st ! k))"
    and col0: "prev_path st ! 0 =
       lna_times inp ! 0 # take (n_comps inp) (drop (init_start inp) (lna_pars inp ! 0))"
    and rec: "\<And>j. j < k \<Longrightarrow> tl (prev_path st ! Suc j) =
        vec_add (forced_at inp j (tl (prev_path st ! j)))
                (mat_vec (stoich_matrix inp) (tl (lna_path st ! Suc j)))"
    unfolding path_inv_def by auto
  have new_l: "lna_path st' ! Suc k = lna_times inp ! Suc k # nat_lna"
    using k len hds[of "Suc k"] by (simp add: lp set_col_span_def)
  have new_p: "prev_path st' ! Suc k = lna_times inp ! Suc k #
       vec_add (init_volumes st) (mat_vec (stoich_matrix inp) nat_lna)"
    using k len hds[of "Suc k"] by (simp add: pp set_col_span_def)
  have old_l: "\<And>i. i \<noteq> Suc k \<Longrightarrow> lna_path st' ! i = lna_path st ! i"
    by (simp add: lp set_col_span_def)
  have old_p: "\<And>i. i \<noteq> Suc k \<Longrightarrow> prev_path st' ! i = prev_path st ! i"
    by (simp add: pp set_col_span_def)
  have a1: "length (lna_path st') = n_times inp" and a2: "length (prev_path st') = n_times inp"
    using len by (simp_all add: lp pp set_col_span_def)
  have a3: "hd (lna_path st' ! i) = lna_times inp ! i" and
       a4: "hd (prev_path st' ! i) = lna_times inp ! i" if "i < n_times inp" for i
    using hds[OF that] new_l new_p old_l[of i] old_p[of i] by (cases "i = Suc k"; simp)+
  have a5: "init_volumes st' = forced_at inp (Suc k) (tl (prev_path st' ! Suc k))"
    by (simp add: iv new_p)
  have a6: "prev_path st' ! 0 =
       lna_times inp ! 0 # take (n_comps inp) (drop (init_start inp) (lna_pars inp ! 0))"
    using col0 old_p[of 0] by simp
  have a7: "tl (prev_path st' ! Suc j) =
        vec_add (forced_at inp j (tl (prev_path st' ! j)))
                (mat_vec (stoich_matrix inp) (tl (lna_path st' ! Suc j)))" if "j < Suc k" for j
  proof (cases "j = k")
    case True
    then show ?thesis using old_p[of k] by (simp add: new_p new_l vol)
  next
    case False
    with that have "j < k" by simp
    then show ?thesis using rec[of j] old_p[of j] old_p[of "Suc j"] old_l[of "Suc j"] by simp
  qed
  show ?thesis
    unfolding path_inv_def
    by (intro conjI allI impI) (simp_all add: a1 a2 a3 a4 a5 a6 a7)
qed

lemma path_inv_loop:
  assumes "1 \<le> n_times inp" "k < n_times inp"
    and "lna_loop integrate svd inp [0..<k] (lna_init inp ode0) = Inr st"
  shows "path_inv inp k st"
  using assms(2,3)
proof (induction k arbitrary: st)
  case 0
  then show ?case using path_inv_init[OF assms(1), of ode0] by auto
next
  case (Suc k)
  from Suc.prems(2) obtain st1 where
    l: "lna_loop integrate svd inp [0..<k] (lna_init inp ode0) = Inr st1" and
    s: "lna_interval integrate svd inp k st1 = Inr st"
    unfolding lna_loop_Suc by (auto split: sum.splits)
  have "path_inv inp k st1" using Suc.IH[OF _ l] Suc.prems(1) by simp
  then show ?case using path_inv_step[OF _ _ s] Suc.prems(1) by simp
qed

lemma path_inv_output:
  assumes "valid_invocation inp" and "propose_lna integrate svd inp ode0 = Inr out"
  obtains st where "path_inv inp (n_times inp - 1) st"
    "out_lna_path out = lna_path st" "out_prev_path out = prev_path st"
proof -
  from assms(1) have n: "1 \<le> n_times inp" by (simp add: valid_invocation_def)
  from assms(2) obtain st where
    l: "lna_loop integrate svd inp [0..<n_times inp - 1] (lna_init inp ode0) = Inr st" and
    o: "out_lna_path out = lna_path st" "out_prev_path out = prev_path st"
    unfolding propose_lna_def by (auto split: sum.splits prod.splits)
  have "path_inv inp (n_times inp - 1) st"
    using path_inv_loop[OF n _ l] n by simp
  then show ?thesis using that o by blast
qed

text \<open>
  C1 (as amended). For every valid invocation that returns its paths, column \<open>j\<close> of
  the incidence path and column \<open>j\<close> of the prevalence path both start with the
  grid time \<open>t\<^sub>j\<close>, and the prevalence of column \<open>j + 1\<close> is the prevalence of column
  \<open>j\<close>, after the forcings scheduled at time \<open>j\<close> (not \<open>j + 1\<close>: a forcing is applied
  after its column is recorded), plus the stoichiometry matrix times the increment of
  column \<open>j + 1\<close>.
\<close>

theorem paths_synchronised:
  assumes "valid_invocation inp" and "propose_lna integrate svd inp ode0 = Inr out"
  shows "length (out_lna_path out) = n_times inp \<and> length (out_prev_path out) = n_times inp \<and>
    (\<forall>j < n_times inp. hd (out_lna_path out ! j) = lna_times inp ! j \<and>
                       hd (out_prev_path out ! j) = lna_times inp ! j) \<and>
    (\<forall>j. Suc j < n_times inp \<longrightarrow>
       tl (out_prev_path out ! Suc j) =
         vec_add (forced_at inp j (tl (out_prev_path out ! j)))
                 (mat_vec (stoich_matrix inp) (tl (out_lna_path out ! Suc j))))"
proof -
  from assms obtain st where inv: "path_inv inp (n_times inp - 1) st"
    and o: "out_lna_path out = lna_path st" "out_prev_path out = prev_path st"
    by (rule path_inv_output)
  show ?thesis
    using inv unfolding path_inv_def o by auto
qed

theorem paths_synchronised_witness:
  "valid_invocation ex_three_times \<and>
   propose_lna (solver_drift (Fin 0)) svd_unit ex_three_times [] =
     Inr \<lparr>out_draws = [[Fin 0], [Fin 0]],
          out_lna_path = [[Fin 0, Fin 0], [Fin 1, Fin 0], [Fin 2, Fin 0]],
          out_prev_path = [[Fin 0, Fin 10, Fin 0], [Fin 1, Fin 8, Fin 2], [Fin 2, Fin 4, Fin 6]]\<rparr> \<and>
   [Fin 8, Fin 2] = vec_add (forced_at ex_three_times 0 [Fin 10, Fin 0])
                      (mat_vec (stoich_matrix ex_three_times) [Fin 0]) \<and>
   [Fin 4, Fin 6] = vec_add (forced_at ex_three_times 1 [Fin 8, Fin 2])
                      (mat_vec (stoich_matrix ex_three_times) [Fin 0])"
proof -
  have v: "valid_invocation ex_three_times"
    by (simp add: engine_defs example_defs)
  have r: "propose_lna (solver_drift (Fin 0)) svd_unit ex_three_times [] =
     Inr \<lparr>out_draws = [[Fin 0], [Fin 0]],
          out_lna_path = [[Fin 0, Fin 0], [Fin 1, Fin 0], [Fin 2, Fin 0]],
          out_prev_path = [[Fin 0, Fin 10, Fin 0], [Fin 1, Fin 8, Fin 2], [Fin 2, Fin 4, Fin 6]]\<rparr>"
    by (simp add: engine_defs example_defs double_arith_simps)
  have n: "n_times ex_three_times = 3"
    by (simp add: n_times_def example_defs)
  from paths_synchronised[OF v r] have
    "\<forall>j. Suc j < 3 \<longrightarrow>
       tl ([[Fin 0, Fin 10, Fin 0], [Fin 1, Fin 8, Fin 2], [Fin 2, Fin 4, Fin 6]] ! Suc j) =
         vec_add (forced_at ex_three_times j
                    (tl ([[Fin 0, Fin 10, Fin 0], [Fin 1, Fin 8, Fin 2], [Fin 2, Fin 4, Fin 6]] ! j)))
                 (mat_vec (stoich_matrix ex_three_times)
                    (tl ([[Fin 0, Fin 0], [Fin 1, Fin 0], [Fin 2, Fin 0]] ! Suc j)))"
    by (simp add: n)
  from this[rule_format, of 0] this[rule_format, of 1] v r show ?thesis
    by simp
qed

text \<open>
  The claim as stated adds the forcing of time \<open>j + 1\<close> to column \<open>j + 1\<close>. With a
  forcing scheduled at the second grid time and a zero increment, the claimed
  column 1 is \<open>[8, 2]\<close>; the function records \<open>[10, 0]\<close>.
\<close>

theorem paths_synchronised_counterexample:
  "valid_invocation ex_forcing_last \<and>
   propose_lna (solver_drift (Fin 0)) svd_unit ex_forcing_last [] =
     Inr \<lparr>out_draws = [[Fin 0]],
          out_lna_path = [[Fin 0, Fin 0], [Fin 1, Fin 0]],
          out_prev_path = [[Fin 0, Fin 10, Fin 0], [Fin 1, Fin 10, Fin 0]]\<rparr> \<and>
   forced_at ex_forcing_last 1
     (vec_add [Fin 10, Fin 0] (mat_vec (stoich_matrix ex_forcing_last) [Fin 0])) = [Fin 8, Fin 2] \<and>
   [Fin 10, Fin 0] \<noteq> [Fin 8, Fin 2 :: double]"
  by (simp add: engine_defs example_defs double_arith_simps)

text \<open>
  C2 (as amended). For every valid invocation that returns its paths, column 0 of
  the prevalence path is the first grid time followed by the volumes read from
  parameter row 0 at the initial-volume offset, whether or not a forcing is
  scheduled at the first grid time: the column is recorded before the forcings of
  time 0 are applied, and these change only the volumes the first interval starts
  from.
\<close>

theorem prevalence_column_0:
  assumes "valid_invocation inp" and "propose_lna integrate svd inp ode0 = Inr out"
  shows "out_prev_path out ! 0 =
           lna_times inp ! 0 # take (n_comps inp) (drop (init_start inp) (lna_pars inp ! 0)) \<and>
         prev_path (lna_init inp ode0) ! 0 = out_prev_path out ! 0 \<and>
         init_volumes (lna_init inp ode0) =
           forced_at inp 0 (take (n_comps inp) (drop (init_start inp) (lna_pars inp ! 0)))"
proof -
  from assms obtain st where inv: "path_inv inp (n_times inp - 1) st"
    and o: "out_prev_path out = prev_path st"
    by (rule path_inv_output)
  from assms(1) have "1 \<le> n_times inp" by (simp add: valid_invocation_def)
  then have "path_inv inp 0 (lna_init inp ode0)" by (rule path_inv_init)
  then show ?thesis
    using inv unfolding path_inv_def o by simp
qed

theorem prevalence_column_0_witness:
  "valid_invocation ex_forcing_first \<and>
   propose_lna (solver_drift (Fin 0)) svd_unit ex_forcing_first [] =
     Inr \<lparr>out_draws = [[Fin 0]],
          out_lna_path = [[Fin 0, Fin 0], [Fin 1, Fin 0]],
          out_prev_path = [[Fin 0, Fin 10, Fin 0], [Fin 1, Fin 8, Fin 2]]\<rparr> \<and>
   lna_times ex_forcing_first ! 0 #
       take (n_comps ex_forcing_first)
         (drop (init_start ex_forcing_first) (lna_pars ex_forcing_first ! 0)) =
     [Fin 0, Fin 10, Fin 0] \<and>
   forced_at ex_forcing_first 0
     (take (n_comps ex_forcing_first)
        (drop (init_start ex_forcing_first) (lna_pars ex_forcing_first ! 0))) =
     init_volumes (lna_init ex_forcing_first [])"
proof -
  have v: "valid_invocation ex_forcing_first"
    by (simp add: engine_defs example_defs)
  have r: "propose_lna (solver_drift (Fin 0)) svd_unit ex_forcing_first [] =
     Inr \<lparr>out_draws = [[Fin 0]],
          out_lna_path = [[Fin 0, Fin 0], [Fin 1, Fin 0]],
          out_prev_path = [[Fin 0, Fin 10, Fin 0], [Fin 1, Fin 8, Fin 2]]\<rparr>"
    by (simp add: engine_defs example_defs double_arith_simps)
  note c = prevalence_column_0[OF v r]
  have c1: "lna_times ex_forcing_first ! 0 #
       take (n_comps ex_forcing_first)
         (drop (init_start ex_forcing_first) (lna_pars ex_forcing_first ! 0)) =
     [Fin 0, Fin 10, Fin 0]"
    using c[THEN conjunct1, symmetric] by (simp only: lna_output.select_convs nth_Cons_0)
  have c2: "forced_at ex_forcing_first 0
     (take (n_comps ex_forcing_first)
        (drop (init_start ex_forcing_first) (lna_pars ex_forcing_first ! 0))) =
     init_volumes (lna_init ex_forcing_first [])"
    using c[THEN conjunct2, THEN conjunct2, symmetric] .
  from v r c1 c2 show ?thesis by blast
qed

text \<open>
  The claim as stated has column 0 hold the volumes after the forcing. With a forcing
  at the first grid time that turns \<open>[10, 0]\<close> into \<open>[8, 2]\<close>, column 0 is \<open>[10, 0]\<close>.
\<close>

theorem prevalence_column_0_counterexample:
  "valid_invocation ex_forcing_first \<and> forcing_inds ex_forcing_first ! 0 \<and>
   propose_lna (solver_drift (Fin 0)) svd_unit ex_forcing_first [] =
     Inr \<lparr>out_draws = [[Fin 0]],
          out_lna_path = [[Fin 0, Fin 0], [Fin 1, Fin 0]],
          out_prev_path = [[Fin 0, Fin 10, Fin 0], [Fin 1, Fin 8, Fin 2]]\<rparr> \<and>
   apply_forcings ex_forcing_first 0
     (take (n_comps ex_forcing_first)
        (drop (init_start ex_forcing_first) (lna_pars ex_forcing_first ! 0))) = [Fin 8, Fin 2] \<and>
   tl [Fin 0, Fin 10, Fin 0] \<noteq> [Fin 8, Fin 2 :: double]"
  by (simp add: engine_defs example_defs double_arith_simps)

subsection \<open>Failures\<close>

lemma propose_lna_fails_at:
  assumes reach: "lna_loop integrate svd inp [0..<j] (lna_init inp ode0) = Inr st"
    and j: "Suc j < n_times inp"
    and fail: "lna_interval integrate svd inp j st = Inl (e, st')"
  shows "propose_lna integrate svd inp ode0 = Inl e"
proof -
  have "[0..<n_times inp - 1] = [0..<j] @ j # [Suc j..<n_times inp - 1]"
    using j upt_add_eq_append[of 0 j "n_times inp - 1 - j"] by (simp add: upt_conv_Cons)
  then show ?thesis
    using reach fail by (simp add: propose_lna_def lna_loop_append)
qed

text \<open>
  C3 (as amended). In every interval the loop reaches, if the increment on the
  natural scale, \<open>exp x - 1\<close> by component, has a negative component, the interval
  and the function fail with \<open>NegativeIncrement\<close>. The check comes after the update
  of the working volumes (line 164 before line 168): at the failure the working
  volumes already hold the stoichiometry matrix times the increment. They are
  dropped with the failure, and the check of the increment comes before the check
  of the volumes.
\<close>

theorem negative_increment_fails:
  assumes "lna_loop integrate svd inp [0..<j] (lna_init inp ode0) = Inr st"
    and "Suc j < n_times inp"
    and "lna_increment integrate svd inp j st = Inr nat_lna"
    and "any_neg nat_lna"
  shows "lna_interval integrate svd inp j st =
           Inl (NegativeIncrement,
                st\<lparr>init_volumes :=
                     vec_add (init_volumes st) (mat_vec (stoich_matrix inp) nat_lna)\<rparr>) \<and>
         propose_lna integrate svd inp ode0 = Inl NegativeIncrement"
proof -
  have i: "lna_interval integrate svd inp j st =
           Inl (NegativeIncrement,
                st\<lparr>init_volumes :=
                     vec_add (init_volumes st) (mat_vec (stoich_matrix inp) nat_lna)\<rparr>)"
    using assms(3,4) by (simp add: lna_interval_def Let_def)
  with propose_lna_fails_at[OF assms(1,2) i] show ?thesis by simp
qed

theorem negative_increment_fails_witness:
  "lna_loop (solver_drift (Fin (- 1))) svd_unit ex_inp [0..<0] (lna_init ex_inp []) =
     Inr (lna_init ex_inp []) \<and>
   Suc 0 < n_times ex_inp \<and>
   lna_increment (solver_drift (Fin (- 1))) svd_unit ex_inp 0 (lna_init ex_inp []) =
     Inr [Fin (exp (- 1) - 1)] \<and>
   any_neg [Fin (exp (- 1) - 1)] \<and>
   propose_lna (solver_drift (Fin (- 1))) svd_unit ex_inp [] = Inl NegativeIncrement"
proof -
  have a: "lna_loop (solver_drift (Fin (- 1))) svd_unit ex_inp [0..<0] (lna_init ex_inp []) =
     Inr (lna_init ex_inp [])" by simp
  have b: "Suc 0 < n_times ex_inp" by (simp add: n_times_def example_defs)
  have c: "lna_increment (solver_drift (Fin (- 1))) svd_unit ex_inp 0 (lna_init ex_inp []) =
     Inr [Fin (exp (- 1) - 1)]"
    by (simp add: engine_defs example_defs double_arith_simps)
  have d: "any_neg [Fin (exp (- 1) - 1)]"
    by (simp add: any_neg_def double_arith_simps)
  from negative_increment_fails[OF a b c d] a b c d show ?thesis
    by simp
qed

text \<open>
  The claim as stated has the volumes unchanged when \<open>NegativeIncrement\<close> is raised.
  With a drift of \<open>-1\<close> the increment is \<open>exp (-1) - 1 < 0\<close>, and the working
  volumes at the failure are not the \<open>[10, 0]\<close> the interval started from.
\<close>

theorem negative_increment_fails_counterexample:
  "lna_interval (solver_drift (Fin (- 1))) svd_unit ex_inp 0 (lna_init ex_inp []) =
     Inl (NegativeIncrement,
          (lna_init ex_inp [])\<lparr>init_volumes := [Fin (11 - exp (- 1)), Fin (exp (- 1) - 1)]\<rparr>) \<and>
   init_volumes (lna_init ex_inp []) = [Fin 10, Fin 0] \<and>
   [Fin (11 - exp (- 1)), Fin (exp (- 1) - 1)] \<noteq> [Fin 10, Fin 0]"
  by (simp add: engine_defs example_defs double_arith_simps)

text \<open>
  C4 (as amended). In every interval the loop reaches, if the drift vector or the
  diffusion matrix read from the solver's buffer contains a NaN, the interval and the
  function fail with \<open>IntegrationFailure\<close>, and the state is the one the interval
  started from. The decomposition is not consulted: the failure is the same for
  every decomposition function. (The source tests \<^verbatim>\<open>has_nan\<close>; an infinite entry
  is not detected here.)
\<close>

theorem nan_moments_fail_before_svd:
  assumes "lna_loop integrate svd inp [0..<j] (lna_init inp ode0) = Inr st"
    and "Suc j < n_times inp"
    and "lna_moments integrate inp j st = (lna_drift, lna_diffusion)"
    and "has_nan lna_drift \<or> mat_has_nan lna_diffusion"
  shows "(\<forall>svd'. lna_interval integrate svd' inp j st = Inl (IntegrationFailure, st)) \<and>
         propose_lna integrate svd inp ode0 = Inl IntegrationFailure"
proof -
  have i: "lna_interval integrate svd' inp j st = Inl (IntegrationFailure, st)" for svd'
    using assms(3,4) by (simp add: lna_interval_def lna_increment_def lna_log_increment_def)
  from propose_lna_fails_at[OF assms(1,2) i] i show ?thesis by simp
qed

theorem nan_moments_fail_before_svd_witness:
  "lna_loop (solver_drift NaN) svd_unit ex_inp [0..<0] (lna_init ex_inp []) =
     Inr (lna_init ex_inp []) \<and>
   Suc 0 < n_times ex_inp \<and>
   lna_moments (solver_drift NaN) ex_inp 0 (lna_init ex_inp []) = ([NaN], [[Fin 0]]) \<and>
   has_nan [NaN] \<and>
   lna_interval (solver_drift NaN) svd_fails ex_inp 0 (lna_init ex_inp []) =
     Inl (IntegrationFailure, lna_init ex_inp []) \<and>
   propose_lna (solver_drift NaN) svd_unit ex_inp [] = Inl IntegrationFailure"
proof -
  have a: "lna_loop (solver_drift NaN) svd_unit ex_inp [0..<0] (lna_init ex_inp []) =
     Inr (lna_init ex_inp [])" by simp
  have b: "Suc 0 < n_times ex_inp" by (simp add: n_times_def example_defs)
  have c: "lna_moments (solver_drift NaN) ex_inp 0 (lna_init ex_inp []) = ([NaN], [[Fin 0]])"
    by (simp add: engine_defs example_defs double_arith_simps)
  have d: "has_nan [NaN] \<or> mat_has_nan [[Fin 0]]" by (simp add: has_nan_def)
  from nan_moments_fail_before_svd[OF a b c d] a b c show ?thesis
    by (simp add: has_nan_def)
qed

text \<open>
  The claim as stated covers every non-finite value. With an infinite drift the
  decomposition is attempted: the function fails with \<open>DecompositionFailure\<close> when
  it does not converge, and with \<open>NegativeVolume\<close> when it does.
\<close>

theorem nan_moments_fail_before_svd_counterexample:
  "lna_moments (solver_drift PInf) ex_inp 0 (lna_init ex_inp []) = ([PInf], [[Fin 0]]) \<and>
   lna_interval (solver_drift PInf) svd_fails ex_inp 0 (lna_init ex_inp []) =
     Inl (DecompositionFailure, lna_init ex_inp []) \<and>
   propose_lna (solver_drift PInf) svd_fails ex_inp [] = Inl DecompositionFailure \<and>
   propose_lna (solver_drift PInf) svd_unit ex_inp [] = Inl NegativeVolume"
  by (simp add: engine_defs example_defs double_arith_simps)

subsection \<open>Forcings\<close>

lemma double_div_1: "(x :: double) / 1 = x"
  by (cases x) (simp_all add: double_arith_simps)

lemma normalise_l1: "normalise w = l1_normalised w"
  by (simp add: normalise_def l1_normalised_def Let_def double_div_1)

lemma foldl_forcing_step:
  "foldl (forcing_step inp t) vols [0..<k] = forcing_spec inp t vols k"
  by (induction k) (simp_all add: forcing_step_def normalise_l1 Let_def)

lemma vsum_Fin: "vsum (map Fin rs) = Fin (sum_list rs)"
  by (induction rs) (simp_all add: double_arith_simps)

lemma norm1_Fin: "norm1 (map Fin rs) = Fin (sum_list (map abs rs))"
  unfolding norm1_def by (induction rs) (simp_all add: double_arith_simps)

lemma sum_list_abs_nonneg: "\<forall>r \<in> set rs. 0 \<le> r \<Longrightarrow> sum_list (map abs rs) = sum_list (rs :: real list)"
  by (induction rs) simp_all

lemma sum_list_abs_ge0: "0 \<le> sum_list (map abs (rs :: real list))"
  by (induction rs) simp_all

lemma sum_list_abs_zero:
  "sum_list (map abs rs) = 0 \<Longrightarrow> sum_list (rs :: real list) = 0"
proof (induction rs)
  case Nil
  then show ?case by simp
next
  case (Cons r rs)
  have "0 \<le> sum_list (map abs rs)" by (rule sum_list_abs_ge0)
  with Cons.prems have "r = 0" and "sum_list (map abs rs) = 0" by simp_all
  then show ?case using Cons.IH by simp
qed

lemma sum_list_divide: "sum_list (map (\<lambda>r. r / c) rs) = sum_list rs / (c :: real)"
  by (induction rs) (simp_all add: add_divide_distrib)

lemma sum_list_abs_divide:
  "sum_list (map (\<lambda>r. \<bar>r\<bar> / c) rs) = sum_list (map abs rs) / (c :: real)"
  by (induction rs) (simp_all add: add_divide_distrib)

lemma l1_normalised_zero:
  assumes "sum_list (map abs rs) = 0"
  shows "l1_normalised (map Fin rs) = map Fin rs" and "vsum (l1_normalised (map Fin rs)) = 0"
  using assms sum_list_abs_zero[OF assms]
  by (simp_all add: l1_normalised_def norm1_Fin vsum_Fin double_arith_simps)

lemma l1_normalised_Fin:
  assumes "sum_list (map abs rs) \<noteq> 0"
  shows "l1_normalised (map Fin rs) = map (\<lambda>r. Fin (r / sum_list (map abs rs))) rs"
    and "norm1 (l1_normalised (map Fin rs)) = 1"
proof -
  have pos: "0 < sum_list (map abs rs)"
    using assms sum_list_abs_ge0[of rs] by simp
  show n: "l1_normalised (map Fin rs) = map (\<lambda>r. Fin (r / sum_list (map abs rs))) rs"
    using assms by (simp add: l1_normalised_def norm1_Fin double_arith_simps)
  have "norm1 (map Fin (map (\<lambda>r. r / sum_list (map abs rs)) rs)) =
      Fin (sum_list (map (\<lambda>r. \<bar>r / sum_list (map abs rs)\<bar>) rs))"
    unfolding norm1_Fin by (simp add: comp_def)
  also have "\<dots> = 1"
    using pos by (simp add: sum_list_abs_divide double_arith_simps)
  finally show "norm1 (l1_normalised (map Fin rs)) = 1"
    by (simp add: n comp_def)
qed

lemma l1_normalised_sum:
  assumes "\<forall>r \<in> set rs. 0 \<le> r" and "sum_list rs \<noteq> 0"
  shows "vsum (l1_normalised (map Fin rs)) = 1"
proof -
  have a: "sum_list (map abs rs) = sum_list rs"
    using assms(1) by (rule sum_list_abs_nonneg)
  have "vsum (map Fin (map (\<lambda>r. r / sum_list rs) rs)) =
      Fin (sum_list (map (\<lambda>r. r / sum_list rs) rs))"
    by (rule vsum_Fin)
  also have "\<dots> = 1"
    using assms(2) by (simp add: sum_list_divide double_arith_simps)
  finally show ?thesis
    using l1_normalised_Fin(1)[of rs] assms(2) by (simp add: a comp_def)
qed

text \<open>
  C5 (as amended). The forcings of a grid time are applied one type after the
  other, each to the volumes the one before left: type \<open>k\<close> adds to the volumes its
  transfer matrix times the magnitude, read in the parameter row of that time at the
  column the type designates, times the 1-normalisation \<open>d\<close> of the product \<open>w\<close>, by
  component, of the type's weight column and the current volumes. \<open>d\<close> is \<open>w\<close>
  divided by the sum of the absolute values of its entries, and is \<open>w\<close> when that
  sum is zero. For a finite \<open>w\<close>: when \<open>w\<close> is zero, \<open>d\<close> is zero and sums to 0; when
  \<open>w\<close> is not zero, the absolute values of \<open>d\<close> sum to 1; and \<open>d\<close> sums to 1 when
  moreover no entry of \<open>w\<close> is negative.
\<close>

theorem forcings_transfer_mass:
  assumes w: "vec_mul (mat_col (forcings_out inp) k)
                (foldl (forcing_step inp t) vols [0..<k]) = map Fin rs"
  shows "apply_forcings inp t vols = forcing_spec inp t vols (n_forcings inp) \<and>
    foldl (forcing_step inp t) vols [0..<Suc k] =
      vec_add (foldl (forcing_step inp t) vols [0..<k])
        (mat_vec (forcing_transfers inp ! k)
           (vec_scale (lna_pars inp ! t ! (forcing_tcov_inds inp ! k))
              (normalise (map Fin rs)))) \<and>
    normalise (map Fin rs) = l1_normalised (map Fin rs) \<and>
    (sum_list (map abs rs) = 0 \<longrightarrow>
       normalise (map Fin rs) = map Fin rs \<and> vsum (normalise (map Fin rs)) = 0) \<and>
    (sum_list (map abs rs) \<noteq> 0 \<longrightarrow>
       normalise (map Fin rs) = map (\<lambda>r. Fin (r / sum_list (map abs rs))) rs \<and>
       norm1 (normalise (map Fin rs)) = 1) \<and>
    ((\<forall>r \<in> set rs. 0 \<le> r) \<and> sum_list rs \<noteq> 0 \<longrightarrow> vsum (normalise (map Fin rs)) = 1)"
proof -
  have "foldl (forcing_step inp t) vols [0..<Suc k] =
      forcing_step inp t (foldl (forcing_step inp t) vols [0..<k]) k"
    by simp
  then have step: "foldl (forcing_step inp t) vols [0..<Suc k] =
      vec_add (foldl (forcing_step inp t) vols [0..<k])
        (mat_vec (forcing_transfers inp ! k)
           (vec_scale (lna_pars inp ! t ! (forcing_tcov_inds inp ! k))
              (normalise (map Fin rs))))"
    by (simp add: forcing_step_def Let_def w)
  show ?thesis
    using step l1_normalised_zero[of rs] l1_normalised_Fin[of rs] l1_normalised_sum[of rs]
    by (simp add: apply_forcings_def foldl_forcing_step normalise_l1)
qed

text \<open>
  The witness is the forcing of the second grid time of the example with three grid
  times: the volumes \<open>[8, 2]\<close>, the weighted product \<open>[8, 0]\<close>, \<open>d = [1, 0]\<close>.
\<close>

theorem forcings_transfer_mass_witness:
  "vec_mul (mat_col (forcings_out ex_three_times) 0)
     (foldl (forcing_step ex_three_times 1) [Fin 8, Fin 2] [0..<0]) = map Fin [8, 0] \<and>
   apply_forcings ex_three_times 1 [Fin 8, Fin 2] = [Fin 4, Fin 6] \<and>
   forcing_spec ex_three_times 1 [Fin 8, Fin 2] (n_forcings ex_three_times) = [Fin 4, Fin 6] \<and>
   normalise (map Fin [8, 0]) = [Fin 1, Fin 0] \<and>
   vsum (normalise (map Fin [8, 0])) = 1 \<and>
   norm1 (normalise (map Fin [8, 0])) = 1"
proof -
  have a: "vec_mul (mat_col (forcings_out ex_three_times) 0)
     (foldl (forcing_step ex_three_times 1) [Fin 8, Fin 2] [0..<0]) = map Fin [8, 0]"
    by (simp add: engine_defs example_defs double_arith_simps)
  have c: "apply_forcings ex_three_times 1 [Fin 8, Fin 2] = [Fin 4, Fin 6]"
    by (simp add: engine_defs example_defs double_arith_simps)
  have n: "normalise (map Fin [8, 0]) = [Fin 1, Fin 0]"
    by (simp add: normalise_def norm1_def double_arith_simps)
  note t = forcings_transfer_mass[OF a]
  have 1: "forcing_spec ex_three_times 1 [Fin 8, Fin 2] (n_forcings ex_three_times) =
      [Fin 4, Fin 6]"
    using t[THEN conjunct1] c by simp
  have p: "(\<forall>r \<in> set [8, 0 :: real]. 0 \<le> r) \<and> sum_list [8, 0 :: real] \<noteq> 0" by simp
  have q: "sum_list (map abs [8, 0 :: real]) \<noteq> 0" by simp
  have 2: "vsum (normalise (map Fin [8, 0])) = 1"
    by (rule t[THEN conjunct2, THEN conjunct2, THEN conjunct2, THEN conjunct2, THEN conjunct2,
          THEN mp, OF p])
  have 3: "norm1 (normalise (map Fin [8, 0])) = 1"
    by (rule t[THEN conjunct2, THEN conjunct2, THEN conjunct2, THEN conjunct2, THEN conjunct1,
          THEN mp, OF q, THEN conjunct2])
  from a c n 1 2 3 show ?thesis by blast
qed

text \<open>
  The claim as stated has \<open>d\<close> sum to 1. With an empty source compartment the
  weighted product is zero, \<open>d\<close> is zero and the forcing leaves the volumes as they
  are; with a negative weight \<open>d\<close> sums to \<open>-1\<close>. Both invocations are valid.
\<close>

theorem forcings_transfer_mass_counterexample:
  "valid_invocation ex_empty_source \<and> forcing_inds ex_empty_source ! 0 \<and>
   take (n_comps ex_empty_source)
     (drop (init_start ex_empty_source) (lna_pars ex_empty_source ! 0)) = [Fin 0, Fin 10] \<and>
   vec_mul (mat_col (forcings_out ex_empty_source) 0) [Fin 0, Fin 10] = [Fin 0, Fin 0] \<and>
   normalise [Fin 0, Fin 0] = [Fin 0, Fin 0] \<and>
   vsum (normalise [Fin 0, Fin 0]) = Fin 0 \<and> Fin 0 \<noteq> (1 :: double) \<and>
   init_volumes (lna_init ex_empty_source []) = [Fin 0, Fin 10] \<and>
   valid_invocation ex_negative_weight \<and> forcing_inds ex_negative_weight ! 0 \<and>
   vec_mul (mat_col (forcings_out ex_negative_weight) 0) [Fin 10, Fin 0] = [Fin (- 10), Fin 0] \<and>
   normalise [Fin (- 10), Fin 0] = [Fin (- 1), Fin 0] \<and>
   vsum (normalise [Fin (- 10), Fin 0]) = Fin (- 1) \<and> Fin (- 1) \<noteq> (1 :: double)"
  by (simp add: engine_defs example_defs double_arith_simps)

subsection \<open>Determinism\<close>

lemma max_attempts_dims:
  "n_events (inp\<lparr>max_attempts := a\<rparr>) = n_events inp"
  "n_comps (inp\<lparr>max_attempts := a\<rparr>) = n_comps inp"
  "n_odes (inp\<lparr>max_attempts := a\<rparr>) = n_odes inp"
  "n_times (inp\<lparr>max_attempts := a\<rparr>) = n_times inp"
  "n_tcovar (inp\<lparr>max_attempts := a\<rparr>) = n_tcovar inp"
  "n_forcings (inp\<lparr>max_attempts := a\<rparr>) = n_forcings inp"
  by (simp_all add: n_events_def n_comps_def n_odes_def n_times_def n_tcovar_def n_forcings_def)

lemma max_attempts_forcing_step:
  "forcing_step (inp\<lparr>max_attempts := a\<rparr>) = forcing_step inp"
  by (simp add: fun_eq_iff forcing_step_def)

lemma max_attempts_forcings:
  "apply_forcings (inp\<lparr>max_attempts := a\<rparr>) = apply_forcings inp"
  by (simp add: fun_eq_iff apply_forcings_def max_attempts_dims max_attempts_forcing_step)

lemma max_attempts_parts:
  "draws_col (inp\<lparr>max_attempts := a\<rparr>) = draws_col inp"
  "lna_moments integrate (inp\<lparr>max_attempts := a\<rparr>) = lna_moments integrate inp"
  "lna_forcing (inp\<lparr>max_attempts := a\<rparr>) = lna_forcing inp"
  "refresh_tcovar (inp\<lparr>max_attempts := a\<rparr>) = refresh_tcovar inp"
  "copy_volumes (inp\<lparr>max_attempts := a\<rparr>) = copy_volumes inp"
  by (simp_all add: fun_eq_iff draws_col_def lna_moments_def lna_forcing_def refresh_tcovar_def
      copy_volumes_def max_attempts_dims max_attempts_forcings)

lemma max_attempts_log_increment:
  "lna_log_increment svd (inp\<lparr>max_attempts := a\<rparr>) = lna_log_increment svd inp"
  by (simp add: fun_eq_iff lna_log_increment_def max_attempts_parts cong: option.case_cong)

lemma max_attempts_increment:
  "lna_increment integrate svd (inp\<lparr>max_attempts := a\<rparr>) = lna_increment integrate svd inp"
  "lna_refresh (inp\<lparr>max_attempts := a\<rparr>) = lna_refresh inp"
  by (simp_all add: fun_eq_iff lna_increment_def lna_refresh_def
      max_attempts_parts max_attempts_log_increment)

lemma max_attempts_interval:
  "lna_interval integrate svd (inp\<lparr>max_attempts := a\<rparr>) j st = lna_interval integrate svd inp j st"
  by (simp add: lna_interval_def max_attempts_increment max_attempts_parts Let_def
      cong: sum.case_cong if_cong)

lemma max_attempts_loop:
  "lna_loop integrate svd (inp\<lparr>max_attempts := a\<rparr>) js st = lna_loop integrate svd inp js st"
  by (induction js arbitrary: st) (simp_all add: max_attempts_interval cong: sum.case_cong)

lemma max_attempts_init:
  "lna_init (inp\<lparr>max_attempts := a\<rparr>) ode0 = lna_init inp ode0"
  "draws_mat (inp\<lparr>max_attempts := a\<rparr>) = draws_mat inp"
  by (simp_all add: lna_init_def draws_mat_def max_attempts_dims max_attempts_forcings
      max_attempts_parts Let_def cong: if_cong)

lemma lna_init_ode0: "lna_init inp ode1 = lna_init inp ode2"
  by (simp add: lna_init_def CALL_SET_ODE_PARAMS_def Let_def)

text \<open>
  C8. The function is a function of its arguments, of the solver and of the
  decomposition: nothing else enters. Two invocations with the same time grid,
  draws, parameter trajectory, index ranges, offset, flags, stoichiometry matrix,
  forcing schedule and tensors and step size return the same result, the same two
  paths or the same failure, whatever parameters the solver held before each
  invocation and whatever retry budget each was given.
\<close>

theorem propose_lna_deterministic:
  "propose_lna integrate svd (inp\<lparr>max_attempts := a\<rparr>) ode1 = propose_lna integrate svd inp ode2"
  unfolding propose_lna_def
  by (simp add: max_attempts_dims max_attempts_init max_attempts_loop
      lna_init_ode0[of inp ode1 ode2] cong: sum.case_cong prod.case_cong)

theorem propose_lna_deterministic_witness:
  "propose_lna (solver_drift (Fin 0)) svd_unit (ex_three_times\<lparr>max_attempts := 5\<rparr>) [Fin 9] =
   propose_lna (solver_drift (Fin 0)) svd_unit ex_three_times []"
  by (rule propose_lna_deterministic)

subsection \<open>The parameter snapshot\<close>

lemma length_vec_add: "length (vec_add a b) = min (length a) (length b)"
  by (simp add: vec_add_def)

lemma length_mat_vec: "length (mat_vec M v) = length M"
  by (simp add: mat_vec_def)

lemma length_forcing_spec:
  assumes "valid_invocation inp" and "k \<le> n_forcings inp" and "length vols = n_comps inp"
  shows "length (forcing_spec inp t vols k) = n_comps inp"
  using assms(2)
proof (induction k)
  case 0
  then show ?case using assms(3) by simp
next
  case (Suc k)
  then have "k < length (forcing_transfers inp)"
    using assms(1) by (simp add: valid_invocation_def)
  then have "forcing_transfers inp ! k \<in> set (forcing_transfers inp)" by simp
  then have "length (forcing_transfers inp ! k) = n_comps inp"
    using assms(1) by (simp add: valid_invocation_def)
  then show ?case using Suc by (simp add: Let_def length_vec_add length_mat_vec)
qed

lemma length_forced_at:
  assumes "valid_invocation inp" and "length vols = n_comps inp"
  shows "length (forced_at inp t vols) = n_comps inp"
  using length_forcing_spec[OF assms(1) _ assms(2), of "n_forcings inp" t] assms(2)
  by (simp add: forced_at_def apply_forcings_def foldl_forcing_step)

lemma nth_copy_volumes:
  assumes "init_start inp + length vols \<le> length params" and "i < length params"
  shows "copy_volumes inp vols params ! i =
           (if init_start inp \<le> i \<and> i < init_start inp + length vols
            then vols ! (i - init_start inp) else params ! i)"
  using assms by (auto simp: copy_volumes_def nth_append)

lemma length_copy_volumes:
  assumes "init_start inp + length vols \<le> length params"
  shows "length (copy_volumes inp vols params) = length params"
  using assms by (simp add: copy_volumes_def)

lemma nth_refresh_tcovar:
  assumes "length (lna_pars inp ! Suc j) = length params" and "n_tcovar inp \<le> length params"
    and "i < length params"
  shows "refresh_tcovar inp j params ! i =
           (if param_update_inds inp ! Suc j \<and> length params - n_tcovar inp \<le> i
            then lna_pars inp ! Suc j ! i else params ! i)"
  using assms by (auto simp: refresh_tcovar_def nth_append Let_def)

lemma length_refresh_tcovar:
  assumes "length (lna_pars inp ! Suc j) = length params" and "n_tcovar inp \<le> length params"
  shows "length (refresh_tcovar inp j params) = length params"
  using assms by (simp add: refresh_tcovar_def Let_def)

lemma valid_row_length:
  assumes "valid_invocation inp" and "j < n_times inp"
  shows "length (lna_pars inp ! j) = length (lna_pars inp ! 0)"
proof -
  from assms have "j < length (lna_pars inp)" by (simp add: valid_invocation_def)
  then have "lna_pars inp ! j \<in> set (lna_pars inp)" by simp
  then show ?thesis using assms(1) by (simp add: valid_invocation_def)
qed

lemma snapshot_inv_init:
  assumes "valid_invocation inp"
  shows "snapshot_inv inp (lna_init inp ode0)"
proof -
  from assms have "init_start inp + n_comps inp \<le> length (lna_pars inp ! 0)"
    by (simp add: valid_invocation_def)
  then have l: "length (take (n_comps inp) (drop (init_start inp) (lna_pars inp ! 0))) = n_comps inp"
    by simp
  have "init_volumes (lna_init inp ode0) =
          forced_at inp 0 (take (n_comps inp) (drop (init_start inp) (lna_pars inp ! 0)))"
    by (simp add: lna_init_def forced_at_def CALL_SET_ODE_PARAMS_def Let_def)
  then have "length (init_volumes (lna_init inp ode0)) = n_comps inp"
    using length_forced_at[OF assms l] by simp
  then show ?thesis
    by (simp add: snapshot_inv_def lna_init_def CALL_SET_ODE_PARAMS_def Let_def)
qed

lemma snapshot_step:
  assumes v: "valid_invocation inp" and j: "Suc j < n_times inp"
    and inv: "snapshot_inv inp st"
    and step: "lna_interval integrate svd inp j st = Inr st'"
  shows "length (current_params st') = length (lna_pars inp ! 0)"
    and "length (init_volumes st') = n_comps inp"
    and "ode_params st' = current_params st'"
    and "i < length (lna_pars inp ! 0) \<Longrightarrow> current_params st' ! i =
           (if init_start inp \<le> i \<and> i < init_start inp + n_comps inp
            then init_volumes st' ! (i - init_start inp)
            else if param_update_inds inp ! Suc j \<and> length (lna_pars inp ! 0) - n_tcovar inp \<le> i
            then lna_pars inp ! Suc j ! i
            else current_params st ! i)"
proof -
  from step obtain nat_lna where
    iv: "init_volumes st' =
        forced_at inp (Suc j) (vec_add (init_volumes st) (mat_vec (stoich_matrix inp) nat_lna))" and
    cp: "current_params st' =
        copy_volumes inp (init_volumes st') (refresh_tcovar inp j (current_params st))" and
    op: "ode_params st' = current_params st'"
    by (rule lna_interval_Inr) auto
  from inv have len: "length (current_params st) = length (lna_pars inp ! 0)"
    and lv: "length (init_volumes st) = n_comps inp"
    by (simp_all add: snapshot_inv_def)
  have "length (vec_add (init_volumes st) (mat_vec (stoich_matrix inp) nat_lna)) = n_comps inp"
    by (simp add: length_vec_add length_mat_vec lv n_comps_def)
  then show lv': "length (init_volumes st') = n_comps inp"
    using length_forced_at[OF v] by (simp add: iv)
  have row: "length (lna_pars inp ! Suc j) = length (current_params st)"
    using valid_row_length[OF v j] len by simp
  have tc: "n_tcovar inp \<le> length (current_params st)"
    and fit: "init_start inp + length (init_volumes st') \<le> length (current_params st)"
    using v len lv' by (simp_all add: valid_invocation_def)
  have lr: "length (refresh_tcovar inp j (current_params st)) = length (current_params st)"
    by (rule length_refresh_tcovar[OF row tc])
  show "length (current_params st') = length (lna_pars inp ! 0)"
    using length_copy_volumes[of inp "init_volumes st'" "refresh_tcovar inp j (current_params st)"]
      fit lr len by (simp add: cp)
  show "ode_params st' = current_params st'" by (rule op)
  show "current_params st' ! i =
           (if init_start inp \<le> i \<and> i < init_start inp + n_comps inp
            then init_volumes st' ! (i - init_start inp)
            else if param_update_inds inp ! Suc j \<and> length (lna_pars inp ! 0) - n_tcovar inp \<le> i
            then lna_pars inp ! Suc j ! i
            else current_params st ! i)" if "i < length (lna_pars inp ! 0)"
  proof -
    from that have i: "i < length (current_params st)" by (simp add: len)
    show ?thesis
      using nth_copy_volumes[of inp "init_volumes st'" "refresh_tcovar inp j (current_params st)" i]
        nth_refresh_tcovar[OF row tc i] fit lr i
      by (simp add: cp lv' len)
  qed
qed

lemma snapshot_inv_step:
  assumes "valid_invocation inp" and "Suc j < n_times inp" and "snapshot_inv inp st"
    and "lna_interval integrate svd inp j st = Inr st'"
  shows "snapshot_inv inp st'"
  using snapshot_step[OF assms] assms(3)
  unfolding snapshot_inv_def by auto

lemma snapshot_inv_loop:
  assumes "valid_invocation inp" and "k < n_times inp"
    and "lna_loop integrate svd inp [0..<k] (lna_init inp ode0) = Inr st"
  shows "snapshot_inv inp st"
  using assms(2,3)
proof (induction k arbitrary: st)
  case 0
  then show ?case using snapshot_inv_init[OF assms(1), of ode0] by auto
next
  case (Suc k)
  from Suc.prems(2) obtain st1 where
    l: "lna_loop integrate svd inp [0..<k] (lna_init inp ode0) = Inr st1" and
    s: "lna_interval integrate svd inp k st1 = Inr st"
    unfolding lna_loop_Suc by (auto split: sum.splits)
  have "snapshot_inv inp st1" using Suc.IH[OF _ l] Suc.prems(1) by simp
  then show ?case using snapshot_inv_step[OF assms(1) Suc.prems(1) _ s] by simp
qed

text \<open>
  C10. The snapshot starts as parameter row 0. After an interval, its entries in
  the range of the volumes (\<open>n_comps\<close> entries from \<open>init_start\<close> on) are the
  working volumes; outside that range, its last \<open>n_tcovar\<close> entries are those of
  the parameter row of the interval's right end if the refresh flag of that time is
  set; every other entry is what it was before the interval. So every entry outside
  the two ranges is, after every interval, the entry of parameter row 0.
\<close>

theorem snapshot_frame:
  assumes "valid_invocation inp" and "Suc k < n_times inp"
    and "lna_loop integrate svd inp [0..<k] (lna_init inp ode0) = Inr st"
    and "lna_interval integrate svd inp k st = Inr st'"
  shows "current_params (lna_init inp ode0) = lna_pars inp ! 0 \<and>
    length (current_params st') = length (lna_pars inp ! 0) \<and>
    (\<forall>i < length (lna_pars inp ! 0).
       current_params st' ! i =
         (if init_start inp \<le> i \<and> i < init_start inp + n_comps inp
          then init_volumes st' ! (i - init_start inp)
          else if param_update_inds inp ! Suc k \<and> length (lna_pars inp ! 0) - n_tcovar inp \<le> i
          then lna_pars inp ! Suc k ! i
          else current_params st ! i)) \<and>
    (\<forall>i < length (lna_pars inp ! 0).
       \<not> (init_start inp \<le> i \<and> i < init_start inp + n_comps inp) \<and>
       i < length (lna_pars inp ! 0) - n_tcovar inp \<longrightarrow>
       current_params st' ! i = lna_pars inp ! 0 ! i)"
proof -
  have k: "k < n_times inp" using assms(2) by simp
  have inv: "snapshot_inv inp st" by (rule snapshot_inv_loop[OF assms(1) k assms(3)])
  have inv': "snapshot_inv inp st'" by (rule snapshot_inv_step[OF assms(1,2) inv assms(4)])
  have "current_params (lna_init inp ode0) = lna_pars inp ! 0"
    by (simp add: lna_init_def CALL_SET_ODE_PARAMS_def Let_def)
  then show ?thesis
    using snapshot_step(1,4)[OF assms(1,2) inv assms(4)] inv'
    unfolding snapshot_inv_def by blast
qed

theorem snapshot_frame_witness:
  "valid_invocation ex_three_times \<and> Suc 1 < n_times ex_three_times \<and>
   lna_loop (solver_drift (Fin 0)) svd_unit ex_three_times [0..<1] (lna_init ex_three_times []) =
     Inr \<lparr>current_params = [Fin 2, Fin 4, Fin 6, Fin 5],
          ode_params = [Fin 2, Fin 4, Fin 6, Fin 5], init_volumes = [Fin 4, Fin 6],
          lna_path = [[Fin 0, Fin 0], [Fin 1, Fin 0], [Fin 2, Fin 0]],
          prev_path = [[Fin 0, Fin 10, Fin 0], [Fin 1, Fin 8, Fin 2], [Fin 2, Fin 0, Fin 0]]\<rparr> \<and>
   lna_interval (solver_drift (Fin 0)) svd_unit ex_three_times 1
     \<lparr>current_params = [Fin 2, Fin 4, Fin 6, Fin 5],
      ode_params = [Fin 2, Fin 4, Fin 6, Fin 5], init_volumes = [Fin 4, Fin 6],
      lna_path = [[Fin 0, Fin 0], [Fin 1, Fin 0], [Fin 2, Fin 0]],
      prev_path = [[Fin 0, Fin 10, Fin 0], [Fin 1, Fin 8, Fin 2], [Fin 2, Fin 0, Fin 0]]\<rparr> =
     Inr \<lparr>current_params = [Fin 2, Fin 4, Fin 6, Fin 7],
          ode_params = [Fin 2, Fin 4, Fin 6, Fin 7], init_volumes = [Fin 4, Fin 6],
          lna_path = [[Fin 0, Fin 0], [Fin 1, Fin 0], [Fin 2, Fin 0]],
          prev_path = [[Fin 0, Fin 10, Fin 0], [Fin 1, Fin 8, Fin 2], [Fin 2, Fin 4, Fin 6]]\<rparr> \<and>
   lna_pars ex_three_times ! 0 = [Fin 2, Fin 10, Fin 0, Fin 5] \<and>
   [Fin 2, Fin 4, Fin 6, Fin 7] ! 0 = lna_pars ex_three_times ! 0 ! 0"
proof -
  have v: "valid_invocation ex_three_times"
    by (simp add: engine_defs example_defs)
  have k: "Suc 1 < n_times ex_three_times"
    by (simp add: n_times_def example_defs)
  have l: "lna_loop (solver_drift (Fin 0)) svd_unit ex_three_times [0..<1]
             (lna_init ex_three_times []) =
     Inr \<lparr>current_params = [Fin 2, Fin 4, Fin 6, Fin 5],
          ode_params = [Fin 2, Fin 4, Fin 6, Fin 5], init_volumes = [Fin 4, Fin 6],
          lna_path = [[Fin 0, Fin 0], [Fin 1, Fin 0], [Fin 2, Fin 0]],
          prev_path = [[Fin 0, Fin 10, Fin 0], [Fin 1, Fin 8, Fin 2], [Fin 2, Fin 0, Fin 0]]\<rparr>"
    by (simp add: engine_defs example_defs double_arith_simps)
  have i: "lna_interval (solver_drift (Fin 0)) svd_unit ex_three_times 1
     \<lparr>current_params = [Fin 2, Fin 4, Fin 6, Fin 5],
      ode_params = [Fin 2, Fin 4, Fin 6, Fin 5], init_volumes = [Fin 4, Fin 6],
      lna_path = [[Fin 0, Fin 0], [Fin 1, Fin 0], [Fin 2, Fin 0]],
      prev_path = [[Fin 0, Fin 10, Fin 0], [Fin 1, Fin 8, Fin 2], [Fin 2, Fin 0, Fin 0]]\<rparr> =
     Inr \<lparr>current_params = [Fin 2, Fin 4, Fin 6, Fin 7],
          ode_params = [Fin 2, Fin 4, Fin 6, Fin 7], init_volumes = [Fin 4, Fin 6],
          lna_path = [[Fin 0, Fin 0], [Fin 1, Fin 0], [Fin 2, Fin 0]],
          prev_path = [[Fin 0, Fin 10, Fin 0], [Fin 1, Fin 8, Fin 2], [Fin 2, Fin 4, Fin 6]]\<rparr>"
    by (simp add: engine_defs example_defs double_arith_simps)
  have r: "lna_pars ex_three_times ! 0 = [Fin 2, Fin 10, Fin 0, Fin 5]"
    by (simp add: example_defs)
  note f = snapshot_frame[OF v k l i, THEN conjunct2, THEN conjunct2, THEN conjunct2,
      rule_format, of 0]
  have "[Fin 2, Fin 4, Fin 6, Fin 7] ! 0 = lna_pars ex_three_times ! 0 ! 0"
    using f by (simp add: engine_defs example_defs)
  with v k l i r show ?thesis by blast
qed

subsection \<open>The interval widths\<close>

lemma nth_vec_add:
  "i < length a \<Longrightarrow> i < length b \<Longrightarrow> vec_add a b ! i = a ! i + b ! i"
  by (simp add: vec_add_def)

lemma nth_vec_div:
  "i < length a \<Longrightarrow> i < length b \<Longrightarrow> vec_div a b ! i = a ! i / b ! i"
  by (simp add: vec_div_def)

lemma length_vec_div: "length (vec_div a b) = min (length a) (length b)"
  by (simp add: vec_div_def)

lemma nth_vec_scale: "i < length v \<Longrightarrow> vec_scale c v ! i = c * v ! i"
  by (simp add: vec_scale_def)

lemma length_vec_scale: "length (vec_scale c v) = length v"
  by (simp add: vec_scale_def)

lemma length_elem_assign: "length (elem_assign v idx src) = length v"
  unfolding elem_assign_def by (induction idx arbitrary: v) simp_all

lemma nth_elem_assign:
  "i < length v \<Longrightarrow> elem_assign v idx src ! i = (if i \<in> set idx then src ! i else v ! i)"
  unfolding elem_assign_def
proof (induction idx arbitrary: v)
  case Nil
  then show ?case by simp
next
  case (Cons k idx)
  then show ?case by (cases "i = k") (simp_all add: nth_list_update)
qed

lemma nth_elem_assign_zeros:
  assumes "i < length v"
  shows "elem_assign v (find_zeros v) src ! i = (if v ! i = 0 then src ! i else v ! i)"
  using assms by (simp add: nth_elem_assign find_zeros_def)

text \<open>
  C9. On vectors of one length, component \<open>i\<close> of the new interval widths is
  \<open>exp (log w + adaptation_factor * (e / (e + c) - target_ratio))\<close>, where \<open>w\<close> is the
  old width, \<open>e\<close> is the number of expansions of the batch and \<open>c\<close> its number of
  contractions, each replaced when it is zero by the running ratio: the cumulative
  expansions over the sum of the cumulative expansions and contractions.
\<close>

theorem interval_width_update:
  assumes len: "length (interval_widths a) = n" "length (n_expansions_afss a) = n"
      "length (n_contractions_afss a) = n" "length c_exp = n" "length c_con = n"
    and i: "i < n"
  shows "interval_widths (update_interval_widths a c_exp c_con adaptation_factor target_ratio) ! i =
    (let ratio = c_exp ! i / (c_exp ! i + c_con ! i);
         e = (if n_expansions_afss a ! i = 0 then ratio else n_expansions_afss a ! i);
         c = (if n_contractions_afss a ! i = 0 then ratio else n_contractions_afss a ! i)
     in dexp (dlog (interval_widths a ! i) + adaptation_factor * (e / (e + c) - target_ratio))) \<and>
    length (interval_widths
      (update_interval_widths a c_exp c_con adaptation_factor target_ratio)) = n"
proof -
  define ratios where "ratios = vec_div c_exp (vec_add c_exp c_con)"
  define n_exp where "n_exp = elem_assign (n_expansions_afss a) (find_zeros (n_expansions_afss a)) ratios"
  define n_con where "n_con = elem_assign (n_contractions_afss a) (find_zeros (n_contractions_afss a)) ratios"
  have r: "ratios ! i = c_exp ! i / (c_exp ! i + c_con ! i)"
    using len i by (simp add: ratios_def nth_vec_div nth_vec_add length_vec_add)
  have le: "length n_exp = n" and lc: "length n_con = n"
    using len by (simp_all add: n_exp_def n_con_def length_elem_assign)
  have e: "n_exp ! i = (if n_expansions_afss a ! i = 0 then ratios ! i else n_expansions_afss a ! i)"
    using len i by (simp add: n_exp_def nth_elem_assign_zeros)
  have c: "n_con ! i = (if n_contractions_afss a ! i = 0 then ratios ! i else n_contractions_afss a ! i)"
    using len i by (simp add: n_con_def nth_elem_assign_zeros)
  have w: "interval_widths (update_interval_widths a c_exp c_con adaptation_factor target_ratio) =
      map dexp (vec_add (map dlog (interval_widths a))
        (vec_scale adaptation_factor
           (map (\<lambda>x. x - target_ratio) (vec_div n_exp (vec_add n_exp n_con)))))"
    by (simp add: update_interval_widths_def Let_def ratios_def n_exp_def n_con_def)
  have "interval_widths (update_interval_widths a c_exp c_con adaptation_factor target_ratio) ! i =
      dexp (dlog (interval_widths a ! i) +
            adaptation_factor * (n_exp ! i / (n_exp ! i + n_con ! i) - target_ratio))"
    using len i le lc
    by (simp add: w nth_vec_add nth_vec_div nth_vec_scale length_vec_add length_vec_div
        length_vec_scale)
  moreover have "length (interval_widths
      (update_interval_widths a c_exp c_con adaptation_factor target_ratio)) = n"
    using len le lc by (simp add: w length_vec_add length_vec_div length_vec_scale)
  ultimately show ?thesis by (simp add: e c r Let_def)
qed

theorem interval_width_update_witness:
  "length (interval_widths ex_afss) = 2 \<and> length (n_expansions_afss ex_afss) = 2 \<and>
   length (n_contractions_afss ex_afss) = 2 \<and> (0 :: nat) < 2 \<and>
   interval_widths
     (update_interval_widths ex_afss [Fin 1, Fin 2] [Fin 1, Fin 2] (Fin 1) (Fin (1 / 2))) ! 0 =
   Fin (exp (- (5 / 14)))"
proof -
  have a: "length (interval_widths ex_afss) = 2" "length (n_expansions_afss ex_afss) = 2"
    "length (n_contractions_afss ex_afss) = 2" "length [Fin 1, Fin 2] = 2"
    by (simp_all add: ex_afss_def)
  have i: "(0 :: nat) < 2" by simp
  from interval_width_update[OF a(1,2,3) a(4) a(4) i, of "Fin 1" "Fin (1 / 2)"] a i
  show ?thesis by (simp add: ex_afss_def double_arith_simps Let_def)
qed

subsection \<open>The square root of the diffusion matrix\<close>

lemma dmul_commute: "dmul a b = dmul b a"
  by (cases a; cases b; simp add: mult.commute)

lemma dmul_assoc: "dmul (dmul a b) c = dmul a (dmul b c)"
proof (cases a; cases b; cases c)
qed (auto simp: zero_less_mult_iff mult_less_0_iff not_less mult.assoc)

lemma double_mult_rotate: "(a * s) * b = a * (b * (s :: double))"
  by (simp add: double_arith_simps dmul_assoc dmul_commute[of s b])

lemma double_add_0 [simp]: "(x :: double) + 0 = x" "0 + x = x"
  by (cases x; simp add: double_arith_simps)+

lemma double_mult_0: "is_fin x \<Longrightarrow> x * 0 = 0"
  by (cases x) (simp_all add: double_arith_simps)

lemma dot_Cons [simp]: "dot (x # xs) (y # ys) = x * y + dot xs ys"
  by (simp add: dot_def vec_mul_def)

lemma dot_Nil [simp]: "dot [] ys = 0" "dot xs [] = 0"
  by (simp_all add: dot_def vec_mul_def)

lemma vec_mul_Cons [simp]: "vec_mul (x # xs) (y # ys) = x * y # vec_mul xs ys"
  by (simp add: vec_mul_def)

lemma vec_mul_Nil [simp]: "vec_mul [] ys = []" "vec_mul xs [] = []"
  by (simp_all add: vec_mul_def)

lemma dot_rotate: "dot (vec_mul u s) v = dot u (vec_mul v s)"
proof (induction u arbitrary: s v)
  case Nil
  then show ?case by simp
next
  case (Cons x u)
  then show ?case by (cases s; cases v) (simp_all add: double_mult_rotate)
qed

lemma dot_unit_offset:
  assumes "list_all is_fin u"
  shows "dot u (map (\<lambda>j. if j = l then c else 0) [m..<m + length u]) =
           (if m \<le> l \<and> l < m + length u then u ! (l - m) * c else 0)"
  using assms
proof (induction u arbitrary: m)
  case Nil
  then show ?case by auto
next
  case (Cons x u)
  have "[m..<m + length (x # u)] = m # [Suc m..<Suc m + length u]"
    using upt_conv_Cons[of m "m + Suc (length u)"] by simp
  then have "dot (x # u) (map (\<lambda>j. if j = l then c else 0) [m..<m + length (x # u)]) =
      x * (if m = l then c else 0) +
      dot u (map (\<lambda>j. if j = l then c else 0) [Suc m..<Suc m + length u])"
    by (simp only: list.map dot_Cons)
  also have "dot u (map (\<lambda>j. if j = l then c else 0) [Suc m..<Suc m + length u]) =
           (if Suc m \<le> l \<and> l < Suc m + length u then u ! (l - Suc m) * c else 0)"
  proof (rule Cons.IH)
    show "list_all is_fin u" using Cons.prems by simp
  qed
  finally have e: "dot (x # u) (map (\<lambda>j. if j = l then c else 0) [m..<m + length (x # u)]) =
      x * (if m = l then c else 0) +
      (if Suc m \<le> l \<and> l < Suc m + length u then u ! (l - Suc m) * c else 0)" .
  show ?case
    unfolding e using Cons.prems by (auto simp: double_mult_0 Suc_diff_le)
qed

lemma dot_unit:
  assumes "list_all is_fin u" and "l < length u"
  shows "dot u (map (\<lambda>j. if j = l then c else 0) [0..<length u]) = u ! l * c"
  using dot_unit_offset[OF assms(1), of l c 0] assms(2) by simp


lemma length_vec_mul: "length (vec_mul a b) = min (length a) (length b)"
  by (simp add: vec_mul_def)

lemma nth_vec_mul: "i < length a \<Longrightarrow> i < length b \<Longrightarrow> vec_mul a b ! i = a ! i * b ! i"
  by (simp add: vec_mul_def)

lemma mat_col_diag:
  assumes "l < length s"
  shows "mat_col (diag_mat s) l = map (\<lambda>j. if j = l then s ! l else 0) [0..<length s]"
  using assms by (auto simp: mat_col_def diag_mat_def)

lemma n_cols_diag: "n_cols (diag_mat s) = length s"
  by (cases s) (simp_all add: n_cols_def diag_mat_def upt_conv_Cons del: upt_Suc)

lemma row_times_diag:
  assumes "list_all is_fin u" and "length u = length s"
  shows "map (\<lambda>k. dot u (mat_col (diag_mat s) k)) [0..<n_cols (diag_mat s)] = vec_mul u s"
proof (rule nth_equalityI)
  show "length (map (\<lambda>k. dot u (mat_col (diag_mat s) k)) [0..<n_cols (diag_mat s)]) =
          length (vec_mul u s)"
    using assms(2) by (simp add: n_cols_diag length_vec_mul)
next
  fix i assume "i < length (map (\<lambda>k. dot u (mat_col (diag_mat s) k)) [0..<n_cols (diag_mat s)])"
  then have i: "i < length s" by (simp add: n_cols_diag)
  then show "map (\<lambda>k. dot u (mat_col (diag_mat s) k)) [0..<n_cols (diag_mat s)] ! i =
          vec_mul u s ! i"
    using dot_unit[OF assms(1), of i "s ! i"] assms(2)
    by (simp add: n_cols_diag mat_col_diag nth_vec_mul)
qed

lemma mat_mul_diag:
  assumes "\<forall>row \<in> set U. list_all is_fin row \<and> length row = length s"
  shows "mat_mul U (diag_mat s) = map (\<lambda>u. vec_mul u s) U"
  unfolding mat_mul_def using assms by (simp add: row_times_diag)

lemma n_cols_square:
  assumes "length V = n" and "\<forall>row \<in> set V. length row = n"
  shows "n_cols V = n"
  using assms by (cases V) (simp_all add: n_cols_def)

lemma mat_col_transpose:
  assumes "length V = n" and "\<forall>row \<in> set V. length row = n" and "k < n"
  shows "mat_col (mat_transpose V) k = V ! k"
proof -
  have "length (V ! k) = n" using assms by simp
  then have "map (\<lambda>j. V ! k ! j) [0..<n] = V ! k"
    using map_nth[of "V ! k"] by simp
  moreover have "mat_col (mat_transpose V) k = map (\<lambda>j. V ! k ! j) [0..<n]"
    using assms by (simp add: mat_col_def mat_transpose_def n_cols_square[OF assms(1,2)])
  ultimately show ?thesis by simp
qed

lemma mat_mul_transpose:
  assumes "length V = n" and "\<forall>row \<in> set V. length row = n"
  shows "mat_mul W (mat_transpose V) = mat_mul_t W V"
proof -
  have t: "mat_transpose V = map (mat_col V) [0..<n]"
    by (simp add: mat_transpose_def n_cols_square[OF assms])
  have nt: "n_cols (mat_transpose V) = n"
  proof (cases n)
    case 0
    then show ?thesis by (simp add: t n_cols_def)
  next
    case (Suc k)
    then have "[0..<n] = 0 # [Suc 0..<n]" by (simp add: upt_conv_Cons)
    then show ?thesis using assms(1) by (simp add: t n_cols_def mat_col_def)
  qed
  have "map (\<lambda>k. dot w (mat_col (mat_transpose V) k)) [0..<n] = map (dot w) V" for w
  proof -
    have "map (\<lambda>k. dot w (mat_col (mat_transpose V) k)) [0..<n] = map (\<lambda>k. dot w (V ! k)) [0..<n]"
      using mat_col_transpose[OF assms] by simp
    also have "\<dots> = map (dot w) (map (\<lambda>k. V ! k) [0..<length V])"
      by (simp add: assms(1) comp_def)
    also have "\<dots> = map (dot w) V" by (simp add: map_nth)
    finally show ?thesis .
  qed
  then show ?thesis by (simp add: mat_mul_def mat_mul_t_def nt)
qed

lemma svd_sqrt_product:
  assumes "\<forall>row \<in> set U. list_all is_fin row \<and> length row = length d"
    and "length V = length d" and "\<forall>row \<in> set V. length row = length d"
  shows "svd_sqrt D (U, d, V) =
    zero_where D
      (mat_mul (mat_mul U (diag_mat (map dsqrt (map (\<lambda>x. if x < 0 then 0 else x) d))))
               (mat_transpose V))"
proof -
  define s where "s = map dsqrt (map (\<lambda>x. if x < 0 then 0 else x) d)"
  have ls: "length s = length d" by (simp add: s_def)
  have 1: "mat_mul U (diag_mat s) = map (\<lambda>u. vec_mul u s) U"
    using mat_mul_diag[of U s] assms(1) ls by simp
  have 2: "mat_mul W (mat_transpose V) = mat_mul_t W V" for W
    by (rule mat_mul_transpose[OF assms(2,3)])
  have 3: "mat_mul_t (map (\<lambda>u. vec_mul u s) U) V = mat_mul_t U (map (\<lambda>row. vec_mul row s) V)"
    by (simp add: mat_mul_t_def dot_rotate comp_def)
  have "svd_sqrt D (U, d, V) = zero_where D (mat_mul_t U (map (\<lambda>row. vec_mul row s) V))"
    by (simp add: svd_sqrt_def s_def Let_def)
  then show ?thesis unfolding s_def[symmetric] by (simp add: 1 2 3)
qed

lemma zero_where_zeros:
  assumes "length S = n" and "\<forall>row \<in> set S. length row = n"
  shows "zero_where (replicate n (zeros n)) S = replicate n (zeros n)"
proof (rule nth_equalityI)
  show "length (zero_where (replicate n (zeros n)) S) = length (replicate n (zeros n))"
    using assms(1) by (simp add: zero_where_def)
next
  fix i assume "i < length (zero_where (replicate n (zeros n)) S)"
  then have i: "i < n" using assms(1) by (simp add: zero_where_def)
  then have "length (S ! i) = n" using assms by simp
  then have "map2 (\<lambda>x s. if x = 0 then 0 else s) (zeros n) (S ! i) = zeros n"
    by (intro nth_equalityI) (simp_all add: zeros_def)
  then show "zero_where (replicate n (zeros n)) S ! i = replicate n (zeros n) ! i"
    using i assms(1) by (simp add: zero_where_def)
qed

lemma svd_sqrt_zero:
  assumes "length U = length d" and "length V = length d"
  shows "svd_sqrt (replicate (length d) (zeros (length d))) (U, d, V) =
           replicate (length d) (zeros (length d))"
  unfolding svd_sqrt_def using assms
  by (simp add: Let_def zero_where_zeros mat_mul_t_def)



subsection \<open>Zero draws and zero drift\<close>

lemma is_fin_arith:
  "is_fin a \<Longrightarrow> is_fin b \<Longrightarrow> is_fin (a + b)"
  "is_fin a \<Longrightarrow> is_fin b \<Longrightarrow> is_fin (a * b)"
  "is_fin (0 :: double)"
  by (cases a; cases b; simp add: double_arith_simps)+

lemma is_fin_sqrt_clamp: "is_fin x \<Longrightarrow> is_fin (dsqrt (if x < 0 then 0 else x))"
  by (cases x) (simp_all add: double_arith_simps)

lemma is_fin_dot: "list_all is_fin a \<Longrightarrow> list_all is_fin b \<Longrightarrow> is_fin (dot a b)"
proof (induction a arbitrary: b)
  case Nil
  then show ?case by (simp add: is_fin_arith)
next
  case (Cons x a)
  then show ?case by (cases b) (simp_all add: is_fin_arith)
qed

lemma is_fin_vec_mul:
  "list_all is_fin a \<Longrightarrow> list_all is_fin b \<Longrightarrow> list_all is_fin (vec_mul a b)"
proof (induction a arbitrary: b)
  case Nil
  then show ?case by simp
next
  case (Cons x a)
  then show ?case by (cases b) (simp_all add: is_fin_arith)
qed

lemma is_fin_mask:
  "list_all is_fin srow \<Longrightarrow>
   list_all is_fin (map2 (\<lambda>x s. if x = 0 then 0 else s) drow srow)"
proof (induction drow arbitrary: srow)
  case Nil
  then show ?case by simp
next
  case (Cons x drow)
  then show ?case by (cases srow) (simp_all add: is_fin_arith)
qed

lemma zero_where_simps:
  "zero_where [] S = []" "zero_where D [] = []"
  "zero_where (drow # D) (srow # S) =
     map2 (\<lambda>x s. if x = 0 then 0 else s) drow srow # zero_where D S"
  by (simp_all add: zero_where_def)

lemma is_fin_zero_where:
  assumes "\<forall>row \<in> set S. list_all is_fin row"
  shows "\<forall>row \<in> set (zero_where D S). list_all is_fin row"
  using assms
proof (induction D arbitrary: S)
  case Nil
  then show ?case by (simp add: zero_where_simps)
next
  case (Cons drow D)
  show ?case
  proof (cases S)
    case Nil
    then show ?thesis by (simp add: zero_where_simps)
  next
    case (Cons srow S')
    with Cons.prems have "list_all is_fin srow" and "\<forall>row \<in> set S'. list_all is_fin row"
      by simp_all
    then show ?thesis
      using Cons.IH[of S'] by (simp add: Cons zero_where_simps is_fin_mask)
  qed
qed

lemma is_fin_mat_mul_t:
  assumes "\<forall>row \<in> set A. list_all is_fin row" and "\<forall>row \<in> set B. list_all is_fin row"
  shows "\<forall>row \<in> set (mat_mul_t A B). list_all is_fin row"
proof
  fix row assume "row \<in> set (mat_mul_t A B)"
  then obtain a where a: "a \<in> set A" and row: "row = map (dot a) B"
    by (auto simp: mat_mul_t_def)
  have "is_fin (dot a b)" if "b \<in> set B" for b
    using is_fin_dot[of a b] assms a that by simp
  then show "list_all is_fin row" by (simp add: row list_all_iff)
qed

lemma is_fin_svd_sqrt:
  assumes "\<forall>row \<in> set U. list_all is_fin row" and "list_all is_fin d"
    and "\<forall>row \<in> set V. list_all is_fin row"
  shows "\<forall>row \<in> set (svd_sqrt D (U, d, V)). list_all is_fin row"
proof -
  define s where "s = map dsqrt (map (\<lambda>x. if x < 0 then 0 else x) d)"
  have s: "list_all is_fin s"
    using assms(2) by (simp add: s_def list_all_iff is_fin_sqrt_clamp)
  have "\<forall>row \<in> set (map (\<lambda>row. vec_mul row s) V). list_all is_fin row"
    using assms(3) s by (simp add: is_fin_vec_mul)
  then have "\<forall>row \<in> set (mat_mul_t U (map (\<lambda>row. vec_mul row s) V)). list_all is_fin row"
    by (rule is_fin_mat_mul_t[OF assms(1)])
  then have "\<forall>row \<in> set (zero_where D (mat_mul_t U (map (\<lambda>row. vec_mul row s) V))).
               list_all is_fin row"
    by (rule is_fin_zero_where)
  moreover have "svd_sqrt D (U, d, V) = zero_where D (mat_mul_t U (map (\<lambda>row. vec_mul row s) V))"
    by (simp add: svd_sqrt_def s_def Let_def)
  ultimately show ?thesis by simp
qed

lemma length_svd_sqrt: "length (svd_sqrt D (U, d, V)) = min (length D) (length U)"
  by (simp add: svd_sqrt_def zero_where_def mat_mul_t_def Let_def)

lemma dot_zero:
  "list_all is_fin a \<Longrightarrow> \<forall>x \<in> set z. x = 0 \<Longrightarrow> dot a z = 0"
proof (induction a arbitrary: z)
  case Nil
  then show ?case by simp
next
  case (Cons x a)
  then show ?case by (cases z) (simp_all add: double_mult_0)
qed

lemma mat_vec_zero:
  assumes "\<forall>row \<in> set M. list_all is_fin row" and "\<forall>x \<in> set z. x = 0"
  shows "mat_vec M z = zeros (length M)"
  using assms by (simp add: mat_vec_def zeros_def dot_zero map_replicate_const[symmetric]
      del: map_replicate_const cong: map_cong)

lemma vec_add_zeros: "length v = n \<Longrightarrow> vec_add v (zeros n) = v"
  by (intro nth_equalityI) (simp_all add: vec_add_def zeros_def)

lemma zeros_add_zeros: "vec_add (zeros n) (zeros n) = zeros n"
  using vec_add_zeros[of "zeros n" n] by (simp add: zeros_def)

lemma expm1_zeros: "map expm1 (zeros n) = zeros n"
  by (simp add: zeros_def double_arith_simps)

lemma not_any_neg_zeros: "\<not> any_neg (zeros n)"
  by (simp add: any_neg_def zeros_def double_arith_simps)

lemma length_mat_of_colmajor: "length (mat_of_colmajor nr nc xs) = nr"
  by (simp add: mat_of_colmajor_def)

lemma increment_zero:
  assumes zd: "zero_drift_at integrate svd inp j st"
    and draws: "\<forall>x \<in> set (lna_draws inp). x = 0"
  shows "lna_increment integrate svd inp j st = Inr (zeros (n_events inp))"
proof -
  obtain lna_drift D where m: "lna_moments integrate inp j st = (lna_drift, D)"
    by (cases "lna_moments integrate inp j st")
  have lD: "length D = n_events inp"
    using m by (auto simp: lna_moments_def Let_def length_mat_of_colmajor)
  from zd m have dr: "lna_drift = zeros (n_events inp)" and nn: "\<not> mat_has_nan D"
    and c: "case svd D of None \<Rightarrow> False
            | Some (U, d, V) \<Rightarrow>
                length U = n_events inp \<and> (\<forall>row \<in> set U. list_all is_fin row) \<and>
                list_all is_fin d \<and> (\<forall>row \<in> set V. list_all is_fin row)"
    by (simp_all add: zero_drift_at_def)
  from c obtain U d V where f: "svd D = Some (U, d, V)" "length U = n_events inp"
    "\<forall>row \<in> set U. list_all is_fin row" "list_all is_fin d" "\<forall>row \<in> set V. list_all is_fin row"
    by (auto split: option.splits)
  have z: "\<forall>x \<in> set (draws_col inp j). x = 0"
    using draws by (auto simp: draws_col_def dest!: in_set_takeD in_set_dropD)
  have "mat_vec (svd_sqrt D (U, d, V)) (draws_col inp j) = zeros (n_events inp)"
    using mat_vec_zero[OF is_fin_svd_sqrt[OF f(3,4,5), of D] z] lD f(2)
    by (simp add: length_svd_sqrt)
  moreover have "\<not> has_nan (zeros (n_events inp))"
    by (simp add: has_nan_def zeros_def double_arith_simps)
  ultimately show ?thesis
    using nn f(1)
    by (simp add: lna_increment_def m lna_log_increment_def dr zeros_add_zeros expm1_zeros)
qed

lemma set_col_span_same:
  assumes "k < length path" and "path ! k = t # v"
  shows "set_col_span path k v = path"
  using assms by (simp add: set_col_span_def list_update_same_conv)

lemma zero_lna_path_loop:
  assumes run: "\<forall>j st. Suc j < n_times inp \<longrightarrow>
        lna_loop integrate svd inp [0..<j] (lna_init inp ode0) = Inr st \<longrightarrow>
        zero_drift_at integrate svd inp j st"
    and draws: "\<forall>x \<in> set (lna_draws inp). x = 0"
    and k: "k < n_times inp"
    and loop: "lna_loop integrate svd inp [0..<k] (lna_init inp ode0) = Inr st"
  shows "lna_path st = map (\<lambda>t. t # zeros (n_events inp)) (lna_times inp)"
  using k loop
proof (induction k arbitrary: st)
  case 0
  then show ?case by (auto simp: lna_init_def CALL_SET_ODE_PARAMS_def Let_def)
next
  case (Suc k)
  from Suc.prems(2) obtain st1 where
    l: "lna_loop integrate svd inp [0..<k] (lna_init inp ode0) = Inr st1" and
    s: "lna_interval integrate svd inp k st1 = Inr st"
    unfolding lna_loop_Suc by (auto split: sum.splits)
  have p1: "lna_path st1 = map (\<lambda>t. t # zeros (n_events inp)) (lna_times inp)"
    using Suc.IH[OF _ l] Suc.prems(1) by simp
  from s obtain nat_lna where
    "lna_increment integrate svd inp k st1 = Inr nat_lna"
    "lna_path st = set_col_span (lna_path st1) (Suc k) nat_lna"
    by (rule lna_interval_Inr)
  then have "lna_path st = set_col_span (lna_path st1) (Suc k) (zeros (n_events inp))"
    using increment_zero[OF run[rule_format, OF Suc.prems(1) l] draws] by simp
  also have "\<dots> = lna_path st1"
    using Suc.prems(1) by (intro set_col_span_same) (simp_all add: p1 n_times_def)
  finally show ?case by (simp add: p1)
qed

lemma length_prev_columns:
  assumes v: "valid_invocation inp" and inv: "path_inv inp k st" and j: "j \<le> k"
  shows "length (tl (prev_path st ! j)) = n_comps inp"
  using j
proof (induction j)
  case 0
  from v have "init_start inp + n_comps inp \<le> length (lna_pars inp ! 0)"
    by (simp add: valid_invocation_def)
  then show ?case using inv by (simp add: path_inv_def)
next
  case (Suc j)
  then have l: "length (tl (prev_path st ! j)) = n_comps inp" and "j < k" by simp_all
  then have "tl (prev_path st ! Suc j) =
        vec_add (forced_at inp j (tl (prev_path st ! j)))
                (mat_vec (stoich_matrix inp) (tl (lna_path st ! Suc j)))"
    using inv by (simp add: path_inv_def)
  then show ?case
    using length_forced_at[OF v l, of j]
    by (simp add: length_vec_add length_mat_vec n_comps_def)
qed

lemma zero_prev_columns:
  assumes v: "valid_invocation inp"
    and stoich: "\<forall>row \<in> set (stoich_matrix inp). list_all is_fin row"
    and inv: "path_inv inp k st"
    and lp: "lna_path st = map (\<lambda>t. t # zeros (n_events inp)) (lna_times inp)"
    and j: "j < k" and k: "k < n_times inp"
  shows "tl (prev_path st ! Suc j) = forced_at inp j (tl (prev_path st ! j))"
proof -
  have "tl (lna_path st ! Suc j) = zeros (n_events inp)"
    using j k by (simp add: lp n_times_def)
  moreover have "mat_vec (stoich_matrix inp) (zeros (n_events inp)) = zeros (n_comps inp)"
    using mat_vec_zero[OF stoich, of "zeros (n_events inp)"] by (simp add: zeros_def n_comps_def)
  moreover have "length (forced_at inp j (tl (prev_path st ! j))) = n_comps inp"
    using length_forced_at[OF v length_prev_columns[OF v inv, of j]] j by simp
  moreover have "tl (prev_path st ! Suc j) =
        vec_add (forced_at inp j (tl (prev_path st ! j)))
                (mat_vec (stoich_matrix inp) (tl (lna_path st ! Suc j)))"
    using inv j by (simp add: path_inv_def)
  ultimately show ?thesis by (simp add: vec_add_zeros)
qed

lemma unforced_columns:
  assumes v: "valid_invocation inp"
    and stoich: "\<forall>row \<in> set (stoich_matrix inp). list_all is_fin row"
    and inv: "path_inv inp k st"
    and lp: "lna_path st = map (\<lambda>t. t # zeros (n_events inp)) (lna_times inp)"
    and k: "k < n_times inp"
    and nf: "\<forall>j < n_times inp. \<not> forcing_inds inp ! j"
    and j: "j \<le> k"
  shows "prev_path st ! j =
    lna_times inp ! j # take (n_comps inp) (drop (init_start inp) (lna_pars inp ! 0))"
proof -
  have t: "tl (prev_path st ! j) = take (n_comps inp) (drop (init_start inp) (lna_pars inp ! 0))"
    using j
  proof (induction j)
    case 0
    then show ?case using inv by (simp add: path_inv_def)
  next
    case (Suc j)
    then have "tl (prev_path st ! Suc j) = forced_at inp j (tl (prev_path st ! j))"
      using zero_prev_columns[OF v stoich inv lp _ k, of j] by simp
    then show ?case using Suc nf k by (simp add: forced_at_def)
  qed
  have "length (tl (prev_path st ! j)) = n_comps inp"
    by (rule length_prev_columns[OF v inv j])
  then have "prev_path st ! j \<noteq> []"
    using v by (auto simp: valid_invocation_def)
  moreover have "hd (prev_path st ! j) = lna_times inp ! j"
    using inv j k by (simp add: path_inv_def)
  ultimately show ?thesis using t by (cases "prev_path st ! j") simp_all
qed

lemma unforced_loop:
  assumes v: "valid_invocation inp"
    and run: "\<forall>j st. Suc j < n_times inp \<longrightarrow>
        lna_loop integrate svd inp [0..<j] (lna_init inp ode0) = Inr st \<longrightarrow>
        zero_drift_at integrate svd inp j st"
    and draws: "\<forall>x \<in> set (lna_draws inp). x = 0"
    and stoich: "\<forall>row \<in> set (stoich_matrix inp). list_all is_fin row"
    and nf: "\<forall>j < n_times inp. \<not> forcing_inds inp ! j"
    and nn: "\<not> any_neg (take (n_comps inp) (drop (init_start inp) (lna_pars inp ! 0)))"
    and k: "k < n_times inp"
  shows "\<exists>st. lna_loop integrate svd inp [0..<k] (lna_init inp ode0) = Inr st"
  using k
proof (induction k)
  case 0
  then show ?case by simp
next
  case (Suc k)
  then obtain st1 where l: "lna_loop integrate svd inp [0..<k] (lna_init inp ode0) = Inr st1"
    by auto
  have k: "k < n_times inp" using Suc.prems by simp
  have n: "1 \<le> n_times inp" using k by simp
  have inv: "path_inv inp k st1" by (rule path_inv_loop[OF n k l])
  have sn: "snapshot_inv inp st1" by (rule snapshot_inv_loop[OF v k l])
  have lp: "lna_path st1 = map (\<lambda>t. t # zeros (n_events inp)) (lna_times inp)"
    by (rule zero_lna_path_loop[OF run draws k l])
  have "tl (prev_path st1 ! k) = take (n_comps inp) (drop (init_start inp) (lna_pars inp ! 0))"
    using unforced_columns[OF v stoich inv lp k nf, of k] by simp
  then have iv: "init_volumes st1 = take (n_comps inp) (drop (init_start inp) (lna_pars inp ! 0))"
    using inv nf k by (simp add: path_inv_def forced_at_def)
  have "mat_vec (stoich_matrix inp) (zeros (n_events inp)) = zeros (n_comps inp)"
    using mat_vec_zero[OF stoich, of "zeros (n_events inp)"] by (simp add: zeros_def n_comps_def)
  moreover have "length (init_volumes st1) = n_comps inp"
    using sn by (simp add: snapshot_inv_def)
  ultimately have "vec_add (init_volumes st1) (mat_vec (stoich_matrix inp) (zeros (n_events inp))) =
      init_volumes st1"
    by (simp add: vec_add_zeros)
  then have "\<exists>st. lna_interval integrate svd inp k st1 = Inr st"
    using increment_zero[OF run[rule_format, OF Suc.prems l] draws] nn nf Suc.prems
    by (simp add: lna_interval_def Let_def not_any_neg_zeros iv lna_forcing_def)
  then show ?case
    unfolding lna_loop_Suc using l by simp
qed

text \<open>
  C7 (as amended). Take a valid invocation whose draws are all zero and whose
  stoichiometry matrix has no NaN or infinite entry, and suppose that in every
  interval the loop reaches the solver leaves a zero drift and a diffusion with no
  NaN, whose decomposition converges to factors with no NaN or infinite entry. Then
  the increment on the natural scale is exactly zero in every interval reached. If
  the invocation returns, every incidence column holds zero increments, and the
  prevalence of column \<open>j + 1\<close> is the prevalence of column \<open>j\<close> after the forcings
  scheduled at time \<open>j\<close>. If no forcing is scheduled and the initial volumes are not
  negative, the invocation returns, and every prevalence column holds the initial
  volumes.
\<close>

theorem zero_draws_zero_drift:
  assumes v: "valid_invocation inp"
    and run: "\<forall>j st. Suc j < n_times inp \<longrightarrow>
        lna_loop integrate svd inp [0..<j] (lna_init inp ode0) = Inr st \<longrightarrow>
        zero_drift_at integrate svd inp j st"
    and draws: "\<forall>x \<in> set (lna_draws inp). x = 0"
    and stoich: "\<forall>row \<in> set (stoich_matrix inp). list_all is_fin row"
  shows "(\<forall>j st. Suc j < n_times inp \<longrightarrow>
       lna_loop integrate svd inp [0..<j] (lna_init inp ode0) = Inr st \<longrightarrow>
       lna_increment integrate svd inp j st = Inr (zeros (n_events inp))) \<and>
    (\<forall>out. propose_lna integrate svd inp ode0 = Inr out \<longrightarrow>
       out_lna_path out = map (\<lambda>t. t # zeros (n_events inp)) (lna_times inp) \<and>
       (\<forall>j. Suc j < n_times inp \<longrightarrow>
          tl (out_prev_path out ! Suc j) = forced_at inp j (tl (out_prev_path out ! j)))) \<and>
    ((\<forall>j < n_times inp. \<not> forcing_inds inp ! j) \<and>
     \<not> any_neg (take (n_comps inp) (drop (init_start inp) (lna_pars inp ! 0))) \<longrightarrow>
       propose_lna integrate svd inp ode0 =
         Inr \<lparr>out_draws = draws_mat inp,
              out_lna_path = map (\<lambda>t. t # zeros (n_events inp)) (lna_times inp),
              out_prev_path =
                map (\<lambda>t. t # take (n_comps inp) (drop (init_start inp) (lna_pars inp ! 0)))
                  (lna_times inp)\<rparr>)"
proof (intro conjI allI impI)
  fix j st
  assume "Suc j < n_times inp"
    and "lna_loop integrate svd inp [0..<j] (lna_init inp ode0) = Inr st"
  then have "zero_drift_at integrate svd inp j st" by (rule run[rule_format])
  then show "lna_increment integrate svd inp j st = Inr (zeros (n_events inp))"
    using draws by (rule increment_zero)
next
  from v have n: "1 \<le> n_times inp" by (simp add: valid_invocation_def)
  then have k: "n_times inp - 1 < n_times inp" by simp
  {
    fix out assume r: "propose_lna integrate svd inp ode0 = Inr out"
    then obtain st where
      l: "lna_loop integrate svd inp [0..<n_times inp - 1] (lna_init inp ode0) = Inr st" and
      o: "out_lna_path out = lna_path st" "out_prev_path out = prev_path st"
      unfolding propose_lna_def by (auto split: sum.splits prod.splits)
    have inv: "path_inv inp (n_times inp - 1) st" by (rule path_inv_loop[OF n k l])
    have lp: "lna_path st = map (\<lambda>t. t # zeros (n_events inp)) (lna_times inp)"
      by (rule zero_lna_path_loop[OF run draws k l])
    show "out_lna_path out = map (\<lambda>t. t # zeros (n_events inp)) (lna_times inp)"
      by (simp add: o lp)
    fix j assume "Suc j < n_times inp"
    then have "j < n_times inp - 1" by simp
    then show "tl (out_prev_path out ! Suc j) = forced_at inp j (tl (out_prev_path out ! j))"
      using zero_prev_columns[OF v stoich inv lp _ k, of j] by (simp add: o)
  }
  assume a: "(\<forall>j < n_times inp. \<not> forcing_inds inp ! j) \<and>
     \<not> any_neg (take (n_comps inp) (drop (init_start inp) (lna_pars inp ! 0)))"
  then obtain st where
    l: "lna_loop integrate svd inp [0..<n_times inp - 1] (lna_init inp ode0) = Inr st"
    using unforced_loop[OF v run draws stoich _ _ k] by blast
  have inv: "path_inv inp (n_times inp - 1) st" by (rule path_inv_loop[OF n k l])
  have lp: "lna_path st = map (\<lambda>t. t # zeros (n_events inp)) (lna_times inp)"
    by (rule zero_lna_path_loop[OF run draws k l])
  have "prev_path st =
      map (\<lambda>t. t # take (n_comps inp) (drop (init_start inp) (lna_pars inp ! 0))) (lna_times inp)"
  proof (rule nth_equalityI)
    show "length (prev_path st) = length (map (\<lambda>t. t #
        take (n_comps inp) (drop (init_start inp) (lna_pars inp ! 0))) (lna_times inp))"
      using inv by (simp add: path_inv_def n_times_def)
  next
    fix j assume "j < length (prev_path st)"
    then have j: "j < n_times inp" using inv by (simp add: path_inv_def)
    then have "j \<le> n_times inp - 1" by simp
    from unforced_columns[OF v stoich inv lp k _ this] a j
    show "prev_path st ! j = map (\<lambda>t. t #
        take (n_comps inp) (drop (init_start inp) (lna_pars inp ! 0))) (lna_times inp) ! j"
      by (simp add: n_times_def)
  qed
  then show "propose_lna integrate svd inp ode0 =
         Inr \<lparr>out_draws = draws_mat inp,
              out_lna_path = map (\<lambda>t. t # zeros (n_events inp)) (lna_times inp),
              out_prev_path =
                map (\<lambda>t. t # take (n_comps inp) (drop (init_start inp) (lna_pars inp ! 0)))
                  (lna_times inp)\<rparr>"
    unfolding propose_lna_def l by (simp add: lp)
qed

text \<open>
  The witness runs a solver whose drift depends on the parameters installed and is
  zero on the run, with the diffusion 4 and the square root 2 that the zero draw
  meets, and a decomposition that fails on every argument that is not finite.
\<close>

theorem zero_draws_zero_drift_witness:
  "valid_invocation ex_inp \<and>
   lna_moments solver_param ex_inp 0 (lna_init ex_inp []) = ([Fin 0], [[Fin 4]]) \<and>
   svd_one [[Fin 4]] = Some ([[Fin 1]], [Fin 4], [[Fin 1]]) \<and>
   svd_sqrt [[Fin 4]] ([[Fin 1]], [Fin 4], [[Fin 1]]) = [[Fin 2]] \<and>
   zero_drift_at solver_param svd_one ex_inp 0 (lna_init ex_inp []) \<and>
   lna_draws ex_inp = [Fin 0] \<and>
   stoich_matrix ex_inp = [[Fin (- 1)], [Fin 1]] \<and> forcing_inds ex_inp = [False, False] \<and>
   lna_increment solver_param svd_one ex_inp 0 (lna_init ex_inp []) = Inr [Fin 0] \<and>
   propose_lna solver_param svd_one ex_inp [] =
     Inr \<lparr>out_draws = [[Fin 0]],
          out_lna_path = [[Fin 0, Fin 0], [Fin 1, Fin 0]],
          out_prev_path = [[Fin 0, Fin 10, Fin 0], [Fin 1, Fin 10, Fin 0]]\<rparr>"
proof -
  have v: "valid_invocation ex_inp"
    by (simp add: engine_defs example_defs)
  have m: "lna_moments solver_param ex_inp 0 (lna_init ex_inp []) = ([Fin 0], [[Fin 4]])"
    by (simp add: engine_defs example_defs double_arith_simps)
  have f: "svd_one [[Fin 4]] = Some ([[Fin 1]], [Fin 4], [[Fin 1]])"
    by (simp add: svd_one_def)
  have q: "svd_sqrt [[Fin 4]] ([[Fin 1]], [Fin 4], [[Fin 1]]) = [[Fin 2]]"
    by (simp add: svd_sqrt_def zero_where_def mat_mul_t_def Let_def double_arith_simps)
  have ne: "n_events ex_inp = 1"
    by (simp add: n_events_def example_defs)
  have z: "zero_drift_at solver_param svd_one ex_inp 0 (lna_init ex_inp [])"
    unfolding zero_drift_at_def m
    by (simp add: f ne zeros_def mat_has_nan_def has_nan_def double_arith_simps)
  have run: "\<forall>j st. Suc j < n_times ex_inp \<longrightarrow>
      lna_loop solver_param svd_one ex_inp [0..<j] (lna_init ex_inp []) = Inr st \<longrightarrow>
      zero_drift_at solver_param svd_one ex_inp j st"
  proof (intro allI impI)
    fix j st
    assume "Suc j < n_times ex_inp"
      and l: "lna_loop solver_param svd_one ex_inp [0..<j] (lna_init ex_inp []) = Inr st"
    then have "j = 0" by (simp add: n_times_def example_defs)
    with l z show "zero_drift_at solver_param svd_one ex_inp j st" by simp
  qed
  have d: "\<forall>x \<in> set (lna_draws ex_inp). x = 0"
    by (simp add: example_defs double_arith_simps)
  have s: "\<forall>row \<in> set (stoich_matrix ex_inp). list_all is_fin row"
    by (simp add: example_defs)
  note t = zero_draws_zero_drift[of ex_inp solver_param svd_one "[]", OF v run d s]
  have nf: "(\<forall>j < n_times ex_inp. \<not> forcing_inds ex_inp ! j) \<and>
     \<not> any_neg (take (n_comps ex_inp) (drop (init_start ex_inp) (lna_pars ex_inp ! 0)))"
    by (simp add: engine_defs example_defs double_arith_simps less_Suc_eq)
  have l0: "lna_loop solver_param svd_one ex_inp [0..<0] (lna_init ex_inp []) =
      Inr (lna_init ex_inp [])" by simp
  have j0: "Suc 0 < n_times ex_inp" by (simp add: n_times_def example_defs)
  have 1: "lna_increment solver_param svd_one ex_inp 0 (lna_init ex_inp []) = Inr [Fin 0]"
    using t[THEN conjunct1, rule_format, OF j0 l0]
    by (simp add: n_events_def zeros_def example_defs double_arith_simps)
  have 2: "propose_lna solver_param svd_one ex_inp [] =
     Inr \<lparr>out_draws = [[Fin 0]],
          out_lna_path = [[Fin 0, Fin 0], [Fin 1, Fin 0]],
          out_prev_path = [[Fin 0, Fin 10, Fin 0], [Fin 1, Fin 10, Fin 0]]\<rparr>"
    using t[THEN conjunct2, THEN conjunct2, rule_format, OF nf]
    by (simp add: engine_defs example_defs double_arith_simps)
  from v m f q z 1 2 show ?thesis by (simp add: example_defs)
qed

text \<open>
  The claim as stated has the prevalence path constant, equal to the initial volumes
  after any forcings. With a forcing at the first grid time, zero draws and zero
  drift, column 0 holds \<open>[10, 0]\<close> and column 1 holds \<open>[8, 2]\<close>.
\<close>

theorem zero_draws_zero_drift_counterexample:
  "valid_invocation ex_forcing_first \<and>
   zero_drift_at solver_param svd_one ex_forcing_first 0 (lna_init ex_forcing_first []) \<and>
   lna_draws ex_forcing_first = [Fin 0] \<and>
   propose_lna solver_param svd_one ex_forcing_first [] =
     Inr \<lparr>out_draws = [[Fin 0]],
          out_lna_path = [[Fin 0, Fin 0], [Fin 1, Fin 0]],
          out_prev_path = [[Fin 0, Fin 10, Fin 0], [Fin 1, Fin 8, Fin 2]]\<rparr> \<and>
   tl [Fin 0, Fin 10, Fin 0] \<noteq> tl [Fin 1, Fin 8, Fin 2 :: double]"
  by (simp add: zero_drift_at_def engine_defs example_defs double_arith_simps)

end
